theory Spec2Isabelle
  imports Complex_Main "HOL-Library.Char_ord" "HOL-Library.List_Lexorder"
    "HOL-Library.Option_ord" "HOL-Library.Product_Lexorder"
begin

section \<open>Hotel Last Resort: the report routes of \<^verbatim>\<open>app.py\<close>\<close>

text \<open>
  \<^verbatim>\<open>app.py\<close> is a Flask application over an SQLite file. Every report route calls
  \<^verbatim>\<open>query_db\<close> with one or more SQL literals, derives totals from the returned row
  dictionaries and hands them to \<^verbatim>\<open>render_template\<close>. The development has two layers:
  the Python layer (values, \<^verbatim>\<open>query_db\<close>, the nineteen view functions, the global error
  handler), and a relational reading of those SQL literals that the properties below are about.

  Modelling conventions, stated once:
  \<^item> a Python exception is the \<open>Inl\<close> side of a sum; a view returns \<open>exn + response\<close>;
  \<^item> standard output and the number of opened and closed connections are threaded
    through as an explicit \<open>world\<close>;
  \<^item> a Python \<^verbatim>\<open>float\<close> or SQLite \<^verbatim>\<open>REAL\<close> value is an IEEE double; it is represented by
    the real number it stands for. Arithmetic on doubles rounds, in ways that depend on
    the interpreter and the engine, so it is not defined here: Python's float summation
    and division are parameters of the environment (\<open>float_sum\<close>, \<open>float_div\<close>), SQLite's
    subtraction, \<^verbatim>\<open>AVG\<close> and \<^verbatim>\<open>SUM\<close> on \<^verbatim>\<open>REAL\<close> are parameters next to its date functions
    (\<open>real_minus\<close>, \<open>real_avg\<close>, \<open>real_sum\<close>). Integers are exact.
\<close>

subsection \<open>Python values\<close>

text \<open>What \<^verbatim>\<open>sqlite3\<close> puts into a row: \<^verbatim>\<open>None\<close>, \<^verbatim>\<open>int\<close>, \<^verbatim>\<open>float\<close>, \<^verbatim>\<open>str\<close>, \<^verbatim>\<open>bytes\<close>.\<close>

datatype pyval = PNone | PInt int | PFloat real | PStr string | PBytes string

text \<open>\<open>SqliteError\<close> stands for \<^verbatim>\<open>sqlite3.Error\<close> and all its subclasses.\<close>

datatype exn =
    SqliteError string
  | TypeError string
  | ZeroDivisionError string
  | OtherException string

text \<open>A row after \<^verbatim>\<open>dict(row)\<close>: column name to value.\<close>

type_synonym pyrow = "string \<Rightarrow> pyval option"

text \<open>\<^verbatim>\<open>d.get(k, default)\<close> and \<^verbatim>\<open>d.get(k)\<close>.\<close>

definition dict_get :: "pyrow \<Rightarrow> string \<Rightarrow> pyval \<Rightarrow> pyval" where
  "dict_get d k dflt = (case d k of None \<Rightarrow> dflt | Some v \<Rightarrow> v)"

definition dict_get1 :: "pyrow \<Rightarrow> string \<Rightarrow> pyval" where
  "dict_get1 d k = dict_get d k PNone"

text \<open>Truth value of an object (\<^verbatim>\<open>if x\<close>).\<close>

fun py_truthy :: "pyval \<Rightarrow> bool" where
  "py_truthy PNone = False"
| "py_truthy (PInt i) = (i \<noteq> 0)"
| "py_truthy (PFloat x) = (x \<noteq> 0)"
| "py_truthy (PStr s) = (s \<noteq> [])"
| "py_truthy (PBytes s) = (s \<noteq> [])"

text \<open>\<^verbatim>\<open>==\<close>: numbers compare by value across \<^verbatim>\<open>int\<close> and \<^verbatim>\<open>float\<close>.\<close>

fun py_eq :: "pyval \<Rightarrow> pyval \<Rightarrow> bool" where
  "py_eq PNone PNone = True"
| "py_eq (PInt a) (PInt b) = (a = b)"
| "py_eq (PInt a) (PFloat b) = (real_of_int a = b)"
| "py_eq (PFloat a) (PInt b) = (a = real_of_int b)"
| "py_eq (PFloat a) (PFloat b) = (a = b)"
| "py_eq (PStr a) (PStr b) = (a = b)"
| "py_eq (PBytes a) (PBytes b) = (a = b)"
| "py_eq _ _ = False"

text \<open>The number behind a numeric value.\<close>

fun py_num :: "pyval \<Rightarrow> real option" where
  "py_num (PInt a) = Some (real_of_int a)"
| "py_num (PFloat x) = Some x"
| "py_num _ = None"

fun is_int :: "pyval \<Rightarrow> bool" where
  "is_int (PInt a) = True"
| "is_int _ = False"

fun int_of :: "pyval \<Rightarrow> int" where
  "int_of (PInt a) = a"
| "int_of _ = 0"

text \<open>
  \<^verbatim>\<open>sum(iterable)\<close> starts from the \<^verbatim>\<open>int\<close> 0 and adds the items from left to right. An
  item that is no number makes the addition raise \<^verbatim>\<open>TypeError\<close>. Integers add up exactly.
  As soon as a \<^verbatim>\<open>float\<close> is among the numbers the result is a \<^verbatim>\<open>float\<close>, computed with
  rounding by the interpreter; \<open>fsum\<close> stands for that computation.
\<close>

definition py_sum :: "(pyval list \<Rightarrow> real) \<Rightarrow> pyval list \<Rightarrow> exn + pyval" where
  "py_sum fsum vs =
     (if list_ex (\<lambda>v. py_num v = None) vs
      then Inl (TypeError ''unsupported operand type(s) for +'')
      else if list_all is_int vs then Inr (PInt (\<Sum>v\<leftarrow>vs. int_of v))
      else Inr (PFloat (fsum vs)))"

text \<open>
  \<^verbatim>\<open>a / b\<close>: true division, always a \<^verbatim>\<open>float\<close>; \<open>fdiv\<close> stands for the rounded quotient
  of two numbers. (The \<^verbatim>\<open>OverflowError\<close> of an \<^verbatim>\<open>int\<close> beyond the range of a double is left
  out: the operands in \<^verbatim>\<open>app.py\<close> are a sum of 64-bit column values and a list length.)
\<close>

definition py_truediv :: "(real \<Rightarrow> real \<Rightarrow> real) \<Rightarrow> pyval \<Rightarrow> pyval \<Rightarrow> exn + pyval" where
  "py_truediv fdiv a b =
     (case (py_num a, py_num b) of
        (Some x, Some y) \<Rightarrow>
          if y = 0 then Inl (ZeroDivisionError ''division by zero'') else Inr (PFloat (fdiv x y))
      | _ \<Rightarrow> Inl (TypeError ''unsupported operand type(s) for /''))"

text \<open>\<^verbatim>\<open>len(set(vs))\<close>: the number of values that are pairwise different under \<^verbatim>\<open>==\<close>.\<close>

fun py_set_len :: "pyval list \<Rightarrow> nat" where
  "py_set_len [] = 0"
| "py_set_len (v # vs) = (if list_ex (\<lambda>u. py_eq u v) vs then py_set_len vs else Suc (py_set_len vs))"

text \<open>The idiom \<^verbatim>\<open>len(rows) if rows else 0\<close>.\<close>

definition len_or_zero :: "pyrow list \<Rightarrow> pyval" where
  "len_or_zero rows = (if rows \<noteq> [] then PInt (int (length rows)) else PInt 0)"

subsection \<open>The database connection and \<^verbatim>\<open>query_db\<close>\<close>

text \<open>
  The SQL literals of the source, one constructor per literal, named after the variable the
  result is bound to (source line of the \<^verbatim>\<open>query_db\<close> call in brackets).
\<close>

datatype stmt =
    Q_account               \<comment> \<open>[46] revenue by customer\<close>
  | Q_guest_rooms           \<comment> \<open>[66] available sleeping rooms\<close>
  | Q_meeting_spaces        \<comment> \<open>[84]\<close>
  | Q_my_reservations       \<comment> \<open>[98] reservations per day, \<^verbatim>\<open>ORDER BY day DESC LIMIT 10\<close>\<close>
  | Q_book_room_types       \<comment> \<open>[113]\<close>
  | Q_book_meeting_types    \<comment> \<open>[118]\<close>
  | Q_staff                 \<comment> \<open>[143]\<close>
  | Q_staff_cards           \<comment> \<open>[157] swipes by department and location\<close>
  | Q_forum_posts           \<comment> \<open>[186] open customer requests\<close>
  | Q_room_types            \<comment> \<open>[195] average stay length by room type\<close>
  | Q_meeting_events        \<comment> \<open>[207]\<close>
  | Q_customer_cards        \<comment> \<open>[228] revenue by customer\<close>
  | Q_room_list             \<comment> \<open>[247] room counts by building and status\<close>
  | Q_emp_reservations      \<comment> \<open>[264] reservations per day, \<^verbatim>\<open>ORDER BY day\<close>\<close>
  | Q_revenue               \<comment> \<open>[281] monthly revenue\<close>
  | Q_never_reserved        \<comment> \<open>[300] rooms never reserved\<close>

text \<open>
  A connection answers \<^verbatim>\<open>cursor.execute(query); cursor.fetchall()\<close> followed by
  \<^verbatim>\<open>dict(row)\<close> on each row: the rows, or the exception raised.
\<close>

record connection =
  cursor_execute :: "stmt \<Rightarrow> exn + pyrow list"

text \<open>
  The environment of a request: what \<^verbatim>\<open>sqlite3.connect(DB_PATH)\<close> does, and the float
  arithmetic of the interpreter.
\<close>

record env =
  sqlite3_connect :: "exn + connection"
  float_sum :: "pyval list \<Rightarrow> real"
  float_div :: "real \<Rightarrow> real \<Rightarrow> real"

text \<open>The idiom \<^verbatim>\<open>sum(r.get(field, 0) for r in rows) if rows else 0\<close>.\<close>

definition sum_field :: "env \<Rightarrow> string \<Rightarrow> pyrow list \<Rightarrow> exn + pyval" where
  "sum_field env field rows =
     (if rows \<noteq> [] then py_sum (float_sum env) (map (\<lambda>r. dict_get r field (PInt 0)) rows)
      else Inr (PInt 0))"

record world =
  stdout :: "string list"
  opened :: nat
  closed :: nat

definition print :: "string \<Rightarrow> world \<Rightarrow> world" where
  "print line w = w\<lparr>stdout := stdout w @ [line]\<rparr>"

definition conn_close :: "world \<Rightarrow> world" where
  "conn_close w = w\<lparr>closed := Suc (closed w)\<rparr>"

text \<open>
  \<^verbatim>\<open>get_db_connection\<close> returns the connection object that \<^verbatim>\<open>sqlite3.connect\<close> returns
  and lets its exception through. The result is wrapped in \<open>Some\<close> so that the caller's
  test \<^verbatim>\<open>conn is None\<close> can be written down.
\<close>

definition get_db_connection :: "env \<Rightarrow> world \<Rightarrow> (exn + connection option) \<times> world" where
  "get_db_connection env w =
     (case sqlite3_connect env of
        Inl e \<Rightarrow> (Inl e, w)
      | Inr conn \<Rightarrow> (Inr (Some conn), w\<lparr>opened := Suc (opened w)\<rparr>))"

text \<open>The result of \<^verbatim>\<open>query_db\<close>: a list of rows, or with \<^verbatim>\<open>one=True\<close> a row or \<^verbatim>\<open>None\<close>.\<close>

datatype qresult = QRows "pyrow list" | QOne "pyrow option"

text \<open>\<^verbatim>\<open>[] if not one else None\<close>.\<close>

definition empty_result :: "bool \<Rightarrow> qresult" where
  "empty_result one = (if \<not> one then QRows [] else QOne None)"

text \<open>
  \<^verbatim>\<open>query_db(query, args=(), one=False)\<close>. The call of \<^verbatim>\<open>get_db_connection\<close> stands before
  the \<^verbatim>\<open>try\<close>; inside it only \<^verbatim>\<open>sqlite3.Error\<close> is caught and printed; \<^verbatim>\<open>finally\<close> closes
  the connection on every path through the \<^verbatim>\<open>try\<close>.
\<close>

definition query_db :: "env \<Rightarrow> stmt \<Rightarrow> bool \<Rightarrow> world \<Rightarrow> (exn + qresult) \<times> world" where
  "query_db env query one w =
     (case get_db_connection env w of
        (Inl e, w1) \<Rightarrow> (Inl e, w1)
      | (Inr None, w1) \<Rightarrow> (Inr (empty_result one), w1)
      | (Inr (Some conn), w1) \<Rightarrow>
          (case cursor_execute conn query of
             Inr dict_results \<Rightarrow>
               (Inr (if one then QOne (case dict_results of [] \<Rightarrow> None | r # _ \<Rightarrow> Some r)
                     else QRows dict_results),
                conn_close w1)
           | Inl (SqliteError msg) \<Rightarrow>
               (Inr (empty_result one), conn_close (print (''Query error: '' @ msg) w1))
           | Inl e \<Rightarrow> (Inl e, conn_close w1)))"

text \<open>
  Every view calls \<^verbatim>\<open>query_db(sql)\<close> with the default \<^verbatim>\<open>one=False\<close> and uses the result as
  a list. \<open>query_rows\<close> is that call; the \<open>QOne\<close> case cannot arise from it.
\<close>

definition query_rows :: "env \<Rightarrow> stmt \<Rightarrow> world \<Rightarrow> (exn + pyrow list) \<times> world" where
  "query_rows env query w =
     (case query_db env query False w of
        (Inl e, w1) \<Rightarrow> (Inl e, w1)
      | (Inr (QRows rows), w1) \<Rightarrow> (Inr rows, w1)
      | (Inr (QOne r), w1) \<Rightarrow> (Inr (case r of None \<Rightarrow> [] | Some x \<Rightarrow> [x]), w1))"

subsection \<open>Responses\<close>

text \<open>\<^verbatim>\<open>render_template(name, **context)\<close>: the template and the values handed to it.\<close>

datatype ctxval = CRows "pyrow list" | CVal pyval | CExn exn

datatype response = Rendered string "(string \<times> ctxval) list"

definition render_template :: "string \<Rightarrow> (string \<times> ctxval) list \<Rightarrow> response" where
  "render_template name ctx = Rendered name ctx"

fun context_of :: "response \<Rightarrow> (string \<times> ctxval) list" where
  "context_of (Rendered name ctx) = ctx"

subsection \<open>The view functions\<close>

text \<open>
  Each view is \<open>env \<Rightarrow> world \<Rightarrow> (exn + response) \<times> world\<close>. An exception of
  \<^verbatim>\<open>query_db\<close> or of \<^verbatim>\<open>sum\<close> leaves the view at once (\<open>Inl\<close>).
\<close>

type_synonym view = "env \<Rightarrow> world \<Rightarrow> (exn + response) \<times> world"

definition static_page :: "string \<Rightarrow> view" where
  "static_page name env w = (Inr (render_template name []), w)"

definition home :: view where
  "home = static_page ''index.html''"

definition signup :: view where
  "signup = static_page ''signup.html''"

definition profile :: view where
  "profile = static_page ''profile.html''"

definition confirmation :: view where
  "confirmation = static_page ''confirmation.html''"

definition management_login :: view where
  "management_login = static_page ''management_login.html''"

definition employee_login :: view where
  "employee_login = static_page ''employee_login.html''"

definition account :: view where
  "account env w =
     (case query_rows env Q_account w of
        (Inl e, w1) \<Rightarrow> (Inl e, w1)
      | (Inr reservations, w1) \<Rightarrow>
          (Inr (render_template ''account.html'' [(''reservations'', CRows reservations)]), w1))"

definition guest_rooms :: view where
  "guest_rooms env w =
     (case query_rows env Q_guest_rooms w of
        (Inl e, w1) \<Rightarrow> (Inl e, w1)
      | (Inr available_rooms, w1) \<Rightarrow>
          (let total_rooms = len_or_zero available_rooms
           in (Inr (render_template ''guest_rooms.html''
                  [(''available_rooms'', CRows available_rooms),
                   (''total_rooms'', CVal total_rooms)]), w1)))"

definition meeting_spaces_page :: view where
  "meeting_spaces_page env w =
     (case query_rows env Q_meeting_spaces w of
        (Inl e, w1) \<Rightarrow> (Inl e, w1)
      | (Inr meeting_spaces, w1) \<Rightarrow>
          (let total_spaces = len_or_zero meeting_spaces
           in (Inr (render_template ''meeting_spaces.html''
                  [(''meeting_spaces'', CRows meeting_spaces),
                   (''total_spaces'', CVal total_spaces)]), w1)))"

definition my_reservations :: view where
  "my_reservations env w =
     (case query_rows env Q_my_reservations w of
        (Inl e, w1) \<Rightarrow> (Inl e, w1)
      | (Inr reservations, w1) \<Rightarrow>
          (let total_reservations = len_or_zero reservations
           in (Inr (render_template ''my_reservations.html''
                  [(''reservations'', CRows reservations),
                   (''total_reservations'', CVal total_reservations)]), w1)))"

definition book :: view where
  "book env w =
     (case query_rows env Q_book_room_types w of
        (Inl e, w1) \<Rightarrow> (Inl e, w1)
      | (Inr room_types, w1) \<Rightarrow>
          (case query_rows env Q_book_meeting_types w1 of
             (Inl e, w2) \<Rightarrow> (Inl e, w2)
           | (Inr meeting_space_types, w2) \<Rightarrow>
               (let all_types = room_types @ meeting_space_types
                in (Inr (render_template ''book.html'' [(''all_types'', CRows all_types)]), w2))))"

definition staff_roster :: view where
  "staff_roster env w =
     (case query_rows env Q_staff w of
        (Inl e, w1) \<Rightarrow> (Inl e, w1)
      | (Inr staff, w1) \<Rightarrow>
          (let total_staff = len_or_zero staff;
               active_staff =
                 (if staff \<noteq> []
                  then PInt (int (length (filter (\<lambda>s. py_truthy (dict_get1 s ''isActive'')) staff)))
                  else PInt 0)
           in (Inr (render_template ''staff_roster.html''
                  [(''staff'', CRows staff),
                   (''total_staff'', CVal total_staff),
                   (''active_staff'', CVal active_staff)]), w1)))"

text \<open>
  \<^verbatim>\<open>len(set(s.get(col) for s in staff_cards if s.get(col))) if staff_cards else 0\<close>.
\<close>

definition distinct_truthy :: "string \<Rightarrow> pyrow list \<Rightarrow> pyval" where
  "distinct_truthy col rows =
     (if rows \<noteq> []
      then PInt (int (py_set_len (filter py_truthy (map (\<lambda>s. dict_get1 s col) rows))))
      else PInt 0)"

definition card_management :: view where
  "card_management env w =
     (case query_rows env Q_staff_cards w of
        (Inl e, w1) \<Rightarrow> (Inl e, w1)
      | (Inr staff_cards, w1) \<Rightarrow>
          (case sum_field env ''staff_swipes'' staff_cards of
             Inl e \<Rightarrow> (Inl e, w1)
           | Inr total_swipes \<Rightarrow>
               (let departments = distinct_truthy ''department'' staff_cards;
                    locations = distinct_truthy ''location'' staff_cards
                in (Inr (render_template ''card_management.html''
                       [(''staff_cards'', CRows staff_cards),
                        (''total_swipes'', CVal total_swipes),
                        (''departments'', CVal departments),
                        (''locations'', CVal locations)]), w1))))"

definition employee_rooms :: view where
  "employee_rooms env w =
     (case query_rows env Q_forum_posts w of
        (Inl e, w1) \<Rightarrow> (Inl e, w1)
      | (Inr forum_posts, w1) \<Rightarrow>
     (case query_rows env Q_room_types w1 of
        (Inl e, w2) \<Rightarrow> (Inl e, w2)
      | (Inr room_types, w2) \<Rightarrow>
     (case query_rows env Q_meeting_events w2 of
        (Inl e, w3) \<Rightarrow> (Inl e, w3)
      | (Inr meeting_spaces_events, w3) \<Rightarrow>
     (case sum_field env ''open_requests'' forum_posts of
        Inl e \<Rightarrow> (Inl e, w3)
      | Inr total_requests \<Rightarrow>
     (case sum_field env ''num_room_bookings'' room_types of
        Inl e \<Rightarrow> (Inl e, w3)
      | Inr total_bookings \<Rightarrow>
     (case sum_field env ''events_count'' meeting_spaces_events of
        Inl e \<Rightarrow> (Inl e, w3)
      | Inr total_events \<Rightarrow>
          (Inr (render_template ''employee_rooms.html''
             [(''forum_posts'', CRows forum_posts),
              (''room_types'', CRows room_types),
              (''meeting_spaces_events'', CRows meeting_spaces_events),
              (''total_requests'', CVal total_requests),
              (''total_bookings'', CVal total_bookings),
              (''total_events'', CVal total_events)]), w3)))))))"

definition employee_customer_cards :: view where
  "employee_customer_cards env w =
     (case query_rows env Q_customer_cards w of
        (Inl e, w1) \<Rightarrow> (Inl e, w1)
      | (Inr customer_cards, w1) \<Rightarrow>
          (let total_customers = len_or_zero customer_cards
           in case sum_field env ''total_billed'' customer_cards of
                Inl e \<Rightarrow> (Inl e, w1)
              | Inr total_revenue \<Rightarrow>
                  (Inr (render_template ''employee_customer_cards.html''
                     [(''customer_cards'', CRows customer_cards),
                      (''total_customers'', CVal total_customers),
                      (''total_revenue'', CVal total_revenue)]), w1)))"

text \<open>
  \<^verbatim>\<open>sum(r.get('num_rooms', 0) for r in rooms if r.get('room_status') == 'available')
  if rooms else 0\<close>.
\<close>

definition sum_available :: "env \<Rightarrow> pyrow list \<Rightarrow> exn + pyval" where
  "sum_available env rooms =
     (if rooms \<noteq> []
      then py_sum (float_sum env) (map (\<lambda>r. dict_get r ''num_rooms'' (PInt 0))
             (filter (\<lambda>r. py_eq (dict_get1 r ''room_status'') (PStr ''available'')) rooms))
      else Inr (PInt 0))"

definition employee_room_list :: view where
  "employee_room_list env w =
     (case query_rows env Q_room_list w of
        (Inl e, w1) \<Rightarrow> (Inl e, w1)
      | (Inr rooms, w1) \<Rightarrow>
          (case sum_field env ''num_rooms'' rooms of
             Inl e \<Rightarrow> (Inl e, w1)
           | Inr total_rooms \<Rightarrow>
               (case sum_available env rooms of
                  Inl e \<Rightarrow> (Inl e, w1)
                | Inr available_rooms \<Rightarrow>
                    (Inr (render_template ''employee_room_list.html''
                       [(''rooms'', CRows rooms),
                        (''total_rooms'', CVal total_rooms),
                        (''available_rooms'', CVal available_rooms)]), w1))))"

text \<open>\<^verbatim>\<open>total_reservations / total_days if total_days > 0 else 0\<close>.\<close>

definition average_per_day :: "env \<Rightarrow> pyval \<Rightarrow> pyval \<Rightarrow> exn + pyval" where
  "average_per_day env total_reservations total_days =
     (if (case total_days of PInt n \<Rightarrow> n > 0 | _ \<Rightarrow> False)
      then py_truediv (float_div env) total_reservations total_days
      else Inr (PInt 0))"

definition employee_reservations_page :: view where
  "employee_reservations_page env w =
     (case query_rows env Q_emp_reservations w of
        (Inl e, w1) \<Rightarrow> (Inl e, w1)
      | (Inr reservations, w1) \<Rightarrow>
          (case sum_field env ''num_reservations'' reservations of
             Inl e \<Rightarrow> (Inl e, w1)
           | Inr total_reservations \<Rightarrow>
               (let total_days = len_or_zero reservations
                in case average_per_day env total_reservations total_days of
                     Inl e \<Rightarrow> (Inl e, w1)
                   | Inr avg_per_day \<Rightarrow>
                       (Inr (render_template ''employee_reservations.html''
                          [(''reservations'', CRows reservations),
                           (''total_reservations'', CVal total_reservations),
                           (''total_days'', CVal total_days),
                           (''avg_per_day'', CVal avg_per_day)]), w1))))"

definition employee_revenue :: view where
  "employee_revenue env w =
     (case query_rows env Q_revenue w of
        (Inl e, w1) \<Rightarrow> (Inl e, w1)
      | (Inr revenue, w1) \<Rightarrow>
          (case sum_field env ''total_revenue'' revenue of
             Inl e \<Rightarrow> (Inl e, w1)
           | Inr total_revenue \<Rightarrow>
               (case sum_field env ''num_tx'' revenue of
                  Inl e \<Rightarrow> (Inl e, w1)
                | Inr total_transactions \<Rightarrow>
                    (let months_tracked = len_or_zero revenue
                     in (Inr (render_template ''employee_revenue.html''
                            [(''revenue'', CRows revenue),
                             (''total_revenue'', CVal total_revenue),
                             (''total_transactions'', CVal total_transactions),
                             (''months_tracked'', CVal months_tracked)]), w1)))))"

definition rooms_never_reserved :: view where
  "rooms_never_reserved env w =
     (case query_rows env Q_never_reserved w of
        (Inl e, w1) \<Rightarrow> (Inl e, w1)
      | (Inr rooms, w1) \<Rightarrow>
          (let total_unused = len_or_zero rooms
           in (Inr (render_template ''rooms_never_reserved.html''
                  [(''rooms'', CRows rooms), (''total_unused'', CVal total_unused)]), w1)))"

subsection \<open>Routing and the global error handler\<close>

datatype route =
    R_home | R_signup | R_account | R_profile | R_guest_rooms | R_meeting_spaces
  | R_my_reservations | R_book | R_confirmation | R_management | R_staff_roster
  | R_card_management | R_employee | R_employee_rooms | R_employee_customer_cards
  | R_employee_room_list | R_employee_reservations | R_employee_revenue
  | R_rooms_never_reserved

text \<open>The \<^verbatim>\<open>@app.route\<close> table.\<close>

fun view_of :: "route \<Rightarrow> view" where
  "view_of R_home = home"
| "view_of R_signup = signup"
| "view_of R_account = account"
| "view_of R_profile = profile"
| "view_of R_guest_rooms = guest_rooms"
| "view_of R_meeting_spaces = meeting_spaces_page"
| "view_of R_my_reservations = my_reservations"
| "view_of R_book = book"
| "view_of R_confirmation = confirmation"
| "view_of R_management = management_login"
| "view_of R_staff_roster = staff_roster"
| "view_of R_card_management = card_management"
| "view_of R_employee = employee_login"
| "view_of R_employee_rooms = employee_rooms"
| "view_of R_employee_customer_cards = employee_customer_cards"
| "view_of R_employee_room_list = employee_room_list"
| "view_of R_employee_reservations = employee_reservations_page"
| "view_of R_employee_revenue = employee_revenue"
| "view_of R_rooms_never_reserved = rooms_never_reserved"

text \<open>The page a route renders when its view returns.\<close>

fun page_of :: "route \<Rightarrow> string" where
  "page_of R_home = ''index.html''"
| "page_of R_signup = ''signup.html''"
| "page_of R_account = ''account.html''"
| "page_of R_profile = ''profile.html''"
| "page_of R_guest_rooms = ''guest_rooms.html''"
| "page_of R_meeting_spaces = ''meeting_spaces.html''"
| "page_of R_my_reservations = ''my_reservations.html''"
| "page_of R_book = ''book.html''"
| "page_of R_confirmation = ''confirmation.html''"
| "page_of R_management = ''management_login.html''"
| "page_of R_staff_roster = ''staff_roster.html''"
| "page_of R_card_management = ''card_management.html''"
| "page_of R_employee = ''employee_login.html''"
| "page_of R_employee_rooms = ''employee_rooms.html''"
| "page_of R_employee_customer_cards = ''employee_customer_cards.html''"
| "page_of R_employee_room_list = ''employee_room_list.html''"
| "page_of R_employee_reservations = ''employee_reservations.html''"
| "page_of R_employee_revenue = ''employee_revenue.html''"
| "page_of R_rooms_never_reserved = ''rooms_never_reserved.html''"

text \<open>\<^verbatim>\<open>@app.errorhandler(Exception)\<close>.\<close>

definition handle_error :: "exn \<Rightarrow> response" where
  "handle_error e = render_template ''error.html'' [(''error'', CExn e)]"

text \<open>Flask runs the view and passes an exception that escapes it to the handler.\<close>

definition dispatch :: "route \<Rightarrow> env \<Rightarrow> world \<Rightarrow> response \<times> world" where
  "dispatch r env w =
     (case view_of r env w of
        (Inl e, w1) \<Rightarrow> (handle_error e, w1)
      | (Inr page, w1) \<Rightarrow> (page, w1))"

text \<open>A context value that shows nothing: an empty collection or the number 0.\<close>

fun blank :: "ctxval \<Rightarrow> bool" where
  "blank (CRows rows) = (rows = [])"
| "blank (CVal v) = (v = PInt 0)"
| "blank (CExn e) = False"

subsection \<open>SQLite: tables, values, built-in functions\<close>

text \<open>
  The schema is not part of the repository. The tables carry the columns that the modelled
  statements mention; a key column is a nullable integer, a name a nullable text, a time
  stamp a nullable text, \<^verbatim>\<open>amount\<close> a nullable number. \<open>None\<close> is SQL \<^verbatim>\<open>NULL\<close>.
\<close>

record building_row =
  b_buildingId :: "int option"
  b_buildingName :: "string option"

record room_row =
  rm_roomId :: "int option"
  rm_roomNumber :: "string option"
  rm_buildingId :: "int option"
  rm_roomTypeId :: "int option"
  rm_roomStatusId :: "int option"

record room_status_row =
  rs_roomStatusId :: "int option"
  rs_status :: "string option"

record room_type_row =
  rt_roomTypeId :: "int option"
  rt_roomType :: "string option"

record reservation_row =
  r_reservationId :: "int option"
  r_startDateTime :: "string option"
  r_endDateTime :: "string option"

record reservation_room_row =
  rr_reservationId :: "int option"
  rr_roomId :: "int option"

record transaction_row =
  t_transactionDate :: "string option"
  t_amount :: "real option"

record database =
  building :: "building_row list"
  room :: "room_row list"
  room_status :: "room_status_row list"
  room_type :: "room_type_row list"
  reservation :: "reservation_row list"
  reservation_room :: "reservation_room_row list"
  transaction :: "transaction_row list"

text \<open>\<^verbatim>\<open>a = b\<close> in an \<^verbatim>\<open>ON\<close> clause: true only when both sides are non-\<^verbatim>\<open>NULL\<close> and equal.\<close>

definition sql_eq :: "'a option \<Rightarrow> 'a option \<Rightarrow> bool" where
  "sql_eq a b = (a \<noteq> None \<and> a = b)"

text \<open>The non-\<^verbatim>\<open>NULL\<close> values of a column.\<close>

definition non_null :: "'a option list \<Rightarrow> 'a list" where
  "non_null vs = concat (map (\<lambda>v. case v of None \<Rightarrow> [] | Some x \<Rightarrow> [x]) vs)"

text \<open>
  What SQLite computes lies outside the repository. \<open>calendar\<close> gives the year, month and
  day of a text that is a time value, \<open>julianday_of\<close> its Julian day number; both are
  \<open>None\<close> on any other text. \<open>real_minus\<close> is the subtraction of two \<^verbatim>\<open>REAL\<close> values,
  \<open>real_avg\<close> and \<open>real_sum\<close> are what \<^verbatim>\<open>AVG\<close> and \<^verbatim>\<open>SUM\<close> compute from the non-\<^verbatim>\<open>NULL\<close>
  values of a group, all three in double precision.
\<close>

record timefns =
  calendar :: "string \<Rightarrow> (nat \<times> nat \<times> nat) option"
  julianday_of :: "string \<Rightarrow> real option"
  real_minus :: "real \<Rightarrow> real \<Rightarrow> real"
  real_avg :: "real list \<Rightarrow> real"
  real_sum :: "real list \<Rightarrow> real"

text \<open>\<^verbatim>\<open>a - b\<close>: \<^verbatim>\<open>NULL\<close> when either side is.\<close>

definition sql_minus :: "timefns \<Rightarrow> real option \<Rightarrow> real option \<Rightarrow> real option" where
  "sql_minus fns a b =
     (case (a, b) of (Some x, Some y) \<Rightarrow> Some (real_minus fns x y) | _ \<Rightarrow> None)"

text \<open>\<^verbatim>\<open>AVG\<close> and \<^verbatim>\<open>SUM\<close> skip \<^verbatim>\<open>NULL\<close> and are \<^verbatim>\<open>NULL\<close> when nothing is left.\<close>

definition sql_avg :: "timefns \<Rightarrow> real option list \<Rightarrow> real option" where
  "sql_avg fns vs = (let xs = non_null vs in if xs = [] then None else Some (real_avg fns xs))"

definition sql_sum :: "timefns \<Rightarrow> real option list \<Rightarrow> real option" where
  "sql_sum fns vs = (let xs = non_null vs in if xs = [] then None else Some (real_sum fns xs))"

text \<open>The last \<open>w\<close> decimal digits of \<open>n\<close> (\<^verbatim>\<open>%04d\<close>, \<^verbatim>\<open>%02d\<close> on SQLite's years 0 to 9999).\<close>

fun zero_pad :: "nat \<Rightarrow> nat \<Rightarrow> string" where
  "zero_pad 0 n = []"
| "zero_pad (Suc w) n = zero_pad w (n div 10) @ [char_of (48 + n mod 10)]"

text \<open>
  The format string of \<^verbatim>\<open>strftime\<close>, for the conversions that occur in the source:
  \<^verbatim>\<open>%Y\<close>, \<^verbatim>\<open>%m\<close>, \<^verbatim>\<open>%d\<close>, and \<^verbatim>\<open>%%\<close>, which stands for a literal percent sign. Any other
  character is copied. (Other conversions are not modelled and give \<open>None\<close>.)
\<close>

fun strftime_format :: "string \<Rightarrow> nat \<times> nat \<times> nat \<Rightarrow> string option" where
  "strftime_format [] ymd = Some []"
| "strftime_format (c # fmt) ymd =
     (if c \<noteq> CHR ''%'' then map_option ((#) c) (strftime_format fmt ymd)
      else (case fmt of
              [] \<Rightarrow> None
            | f # rest \<Rightarrow>
                (if f = CHR ''%'' then map_option ((#) CHR ''%'') (strftime_format rest ymd)
                 else if f = CHR ''Y''
                   then map_option ((@) (zero_pad 4 (fst ymd))) (strftime_format rest ymd)
                 else if f = CHR ''m''
                   then map_option ((@) (zero_pad 2 (fst (snd ymd)))) (strftime_format rest ymd)
                 else if f = CHR ''d''
                   then map_option ((@) (zero_pad 2 (snd (snd ymd)))) (strftime_format rest ymd)
                 else None)))"

definition sql_strftime :: "timefns \<Rightarrow> string \<Rightarrow> string option \<Rightarrow> string option" where
  "sql_strftime fns fmt x =
     (case x of
        None \<Rightarrow> None
      | Some s \<Rightarrow> (case calendar fns s of None \<Rightarrow> None | Some ymd \<Rightarrow> strftime_format fmt ymd))"

text \<open>\<^verbatim>\<open>date(x)\<close> is \<^verbatim>\<open>strftime('%Y-%m-%d', x)\<close>.\<close>

definition sql_date :: "timefns \<Rightarrow> string option \<Rightarrow> string option" where
  "sql_date fns x = sql_strftime fns ''%Y-%m-%d'' x"

definition sql_julianday :: "timefns \<Rightarrow> string option \<Rightarrow> real option" where
  "sql_julianday fns x = (case x of None \<Rightarrow> None | Some s \<Rightarrow> julianday_of fns s)"

text \<open>
  \<^verbatim>\<open>CAST(text AS INTEGER)\<close>: the longest prefix that reads as an integer, after leading
  white space and an optional sign; 0 when there is none; a value outside the 64-bit range
  becomes the nearest bound.
\<close>

definition sql_space :: "char \<Rightarrow> bool" where
  "sql_space c = (c \<in> set [CHR 0x20, CHR 0x09, CHR 0x0A, CHR 0x0B, CHR 0x0C, CHR 0x0D])"

definition clamp_int64 :: "int \<Rightarrow> int" where
  "clamp_int64 i = max (- 9223372036854775808) (min 9223372036854775807 i)"

fun leading_digits :: "nat \<Rightarrow> string \<Rightarrow> nat" where
  "leading_digits acc [] = acc"
| "leading_digits acc (c # cs) =
     (if CHR ''0'' \<le> c \<and> c \<le> CHR ''9''
      then leading_digits (10 * acc + (of_char c - 48)) cs
      else acc)"

definition cast_text_integer :: "string \<Rightarrow> int" where
  "cast_text_integer s =
     (case dropWhile sql_space s of
        [] \<Rightarrow> 0
      | c # cs \<Rightarrow>
          if c = CHR ''-'' then clamp_int64 (- int (leading_digits 0 cs))
          else if c = CHR ''+'' then clamp_int64 (int (leading_digits 0 cs))
          else clamp_int64 (int (leading_digits 0 (c # cs))))"

definition sql_cast_integer :: "string option \<Rightarrow> int option" where
  "sql_cast_integer x = map_option cast_text_integer x"

text \<open>
  The keywords that SQLite does not accept as an unquoted table name after \<^verbatim>\<open>FROM\<close> or
  \<^verbatim>\<open>JOIN\<close> (SQLite 3.46, in lower case as the source writes its table names).
\<close>

definition sqlite_reserved :: "string list" where
  "sqlite_reserved =
     [''add'', ''all'', ''alter'', ''and'', ''as'', ''autoincrement'', ''between'', ''case'',
      ''check'', ''collate'', ''commit'', ''constraint'', ''create'', ''default'',
      ''deferrable'', ''delete'', ''distinct'', ''drop'', ''else'', ''escape'', ''except'',
      ''exists'', ''foreign'', ''from'', ''group'', ''having'', ''in'', ''index'', ''insert'',
      ''intersect'', ''into'', ''is'', ''isnull'', ''join'', ''limit'', ''not'', ''nothing'',
      ''notnull'', ''null'', ''on'', ''or'', ''order'', ''primary'', ''references'',
      ''returning'', ''select'', ''set'', ''table'', ''then'', ''to'', ''transaction'',
      ''union'', ''unique'', ''update'', ''using'', ''values'', ''when'', ''where'']"

text \<open>
  Preparing a statement: a reserved word in the place of a table name is a syntax error
  (\<^verbatim>\<open>sqlite3.OperationalError\<close>), otherwise the statement yields its rows.
\<close>

definition sqlite_prepare :: "string list \<Rightarrow> 'a \<Rightarrow> exn + 'a" where
  "sqlite_prepare table_names rows =
     (case filter (\<lambda>t. t \<in> set sqlite_reserved) table_names of
        [] \<Rightarrow> Inr rows
      | t # _ \<Rightarrow> Inl (SqliteError (''near '' @ [CHR 0x22] @ t @ [CHR 0x22] @ '': syntax error'')))"

text \<open>
  \<^verbatim>\<open>GROUP BY\<close>: one group per key value, holding the rows with that key (\<^verbatim>\<open>NULL\<close> keys
  form one group).
\<close>

fun group_by :: "('a \<Rightarrow> 'k) \<Rightarrow> 'a list \<Rightarrow> ('k \<times> 'a list) list" where
  "group_by key [] = []"
| "group_by key (x # xs) =
     (key x, x # filter (\<lambda>y. key y = key x) xs) # group_by key (filter (\<lambda>y. key y \<noteq> key x) xs)"

text \<open>
  \<^verbatim>\<open>ORDER BY k\<close> and \<^verbatim>\<open>ORDER BY k DESC\<close>; \<^verbatim>\<open>NULL\<close> is the least value. SQLite leaves the
  order of rows with equal keys open; here it is the one of the insertion sort.
\<close>

definition order_by :: "('a \<Rightarrow> 'k::linorder) \<Rightarrow> 'a list \<Rightarrow> 'a list" where
  "order_by k rows = sort_key k rows"

definition order_by_desc :: "('a \<Rightarrow> 'k::linorder) \<Rightarrow> 'a list \<Rightarrow> 'a list" where
  "order_by_desc k rows = rev (sort_key k rows)"

text \<open>SQLite values as \<^verbatim>\<open>sqlite3\<close> hands them to Python.\<close>

definition py_text :: "string option \<Rightarrow> pyval" where
  "py_text x = (case x of None \<Rightarrow> PNone | Some s \<Rightarrow> PStr s)"

definition py_integer :: "int option \<Rightarrow> pyval" where
  "py_integer x = (case x of None \<Rightarrow> PNone | Some i \<Rightarrow> PInt i)"

definition py_float :: "real option \<Rightarrow> pyval" where
  "py_float x = (case x of None \<Rightarrow> PNone | Some r \<Rightarrow> PFloat r)"

subsection \<open>The SQL statements\<close>

text \<open>
  Query 2 [247]: \<^verbatim>\<open>FROM building AS b JOIN room AS rm ON rm.buildingId = b.buildingId
  JOIN room_status AS rs ON rs.roomStatusId = rm.roomStatusId
  GROUP BY b.buildingName, rs.status ORDER BY b.buildingName, num_rooms DESC\<close>,
  selecting \<^verbatim>\<open>b.buildingName, rs.status AS room_status, COUNT(*) AS num_rooms\<close>.
\<close>

definition room_list_from :: "database \<Rightarrow> (building_row \<times> room_row \<times> room_status_row) list" where
  "room_list_from db =
     [(b, rm, rs).
        b \<leftarrow> building db,
        rm \<leftarrow> room db, sql_eq (rm_buildingId rm) (b_buildingId b),
        rs \<leftarrow> room_status db, sql_eq (rs_roomStatusId rs) (rm_roomStatusId rm)]"

definition room_list_groups :: "database \<Rightarrow> (string option \<times> string option \<times> nat) list" where
  "room_list_groups db =
     map (\<lambda>(k, g). (fst k, snd k, length g))
       (group_by (\<lambda>(b, rm, rs). (b_buildingName b, rs_status rs)) (room_list_from db))"

definition room_list_row :: "string option \<times> string option \<times> nat \<Rightarrow> pyrow" where
  "room_list_row g =
     [''buildingName'' \<mapsto> py_text (fst g),
      ''room_status'' \<mapsto> py_text (fst (snd g)),
      ''num_rooms'' \<mapsto> PInt (int (snd (snd g)))]"

definition room_list_select :: "database \<Rightarrow> pyrow list" where
  "room_list_select db =
     map room_list_row (order_by (\<lambda>g. (fst g, - int (snd (snd g)))) (room_list_groups db))"

definition sql_room_list :: "database \<Rightarrow> exn + pyrow list" where
  "sql_room_list db =
     sqlite_prepare [''building'', ''room'', ''room_status''] (room_list_select db)"

text \<open>
  Query 3 [195]: \<^verbatim>\<open>FROM room_type AS rt JOIN room AS rm ON rm.roomTypeId = rt.roomTypeId
  JOIN reservation_room AS rr ON rr.roomId = rm.roomId
  JOIN reservation AS r ON r.reservationId = rr.reservationId
  GROUP BY rt.roomType ORDER BY avg_nights DESC\<close>, selecting \<^verbatim>\<open>rt.roomType,
  AVG(julianday(r.endDateTime) - julianday(r.startDateTime)) AS avg_nights,
  COUNT(*) AS num_room_bookings\<close>.
\<close>

type_synonym booking = "room_type_row \<times> room_row \<times> reservation_room_row \<times> reservation_row"

definition room_types_from :: "database \<Rightarrow> booking list" where
  "room_types_from db =
     [(rt, rm, rr, r).
        rt \<leftarrow> room_type db,
        rm \<leftarrow> room db, sql_eq (rm_roomTypeId rm) (rt_roomTypeId rt),
        rr \<leftarrow> reservation_room db, sql_eq (rr_roomId rr) (rm_roomId rm),
        r \<leftarrow> reservation db, sql_eq (r_reservationId r) (rr_reservationId rr)]"

definition booking_type :: "booking \<Rightarrow> string option" where
  "booking_type j = rt_roomType (fst j)"

definition nights :: "timefns \<Rightarrow> booking \<Rightarrow> real option" where
  "nights fns j =
     (let r = snd (snd (snd j))
      in sql_minus fns (sql_julianday fns (r_endDateTime r)) (sql_julianday fns (r_startDateTime r)))"

definition room_types_groups :: "timefns \<Rightarrow> database \<Rightarrow> (string option \<times> real option \<times> nat) list" where
  "room_types_groups fns db =
     map (\<lambda>(k, g). (k, sql_avg fns (map (nights fns) g), length g))
       (group_by booking_type (room_types_from db))"

definition room_types_rows :: "timefns \<Rightarrow> database \<Rightarrow> (string option \<times> real option \<times> nat) list" where
  "room_types_rows fns db = order_by_desc (\<lambda>g. fst (snd g)) (room_types_groups fns db)"

definition room_types_row :: "string option \<times> real option \<times> nat \<Rightarrow> pyrow" where
  "room_types_row g =
     [''roomType'' \<mapsto> py_text (fst g),
      ''avg_nights'' \<mapsto> py_float (fst (snd g)),
      ''num_room_bookings'' \<mapsto> PInt (int (snd (snd g)))]"

definition sql_room_types :: "timefns \<Rightarrow> database \<Rightarrow> exn + pyrow list" where
  "sql_room_types fns db =
     sqlite_prepare [''room_type'', ''room'', ''reservation_room'', ''reservation'']
       (map room_types_row (room_types_rows fns db))"

text \<open>
  Query 9 [300]: \<^verbatim>\<open>FROM building AS b JOIN room AS rm ON rm.buildingId = b.buildingId
  LEFT JOIN reservation_room AS rr ON rr.roomId = rm.roomId WHERE rr.roomId IS NULL
  ORDER BY b.buildingName, rm.roomNumber\<close>, selecting \<^verbatim>\<open>b.buildingName, rm.roomNumber\<close>.
\<close>

definition never_reserved_from ::
    "database \<Rightarrow> (building_row \<times> room_row \<times> reservation_room_row option) list" where
  "never_reserved_from db =
     concat (map (\<lambda>(b, rm).
         (case filter (\<lambda>rr. sql_eq (rr_roomId rr) (rm_roomId rm)) (reservation_room db) of
            [] \<Rightarrow> [(b, rm, None)]
          | matches \<Rightarrow> map (\<lambda>rr. (b, rm, Some rr)) matches))
       [(b, rm). b \<leftarrow> building db, rm \<leftarrow> room db, sql_eq (rm_buildingId rm) (b_buildingId b)])"

definition never_reserved_where ::
    "database \<Rightarrow> (building_row \<times> room_row \<times> reservation_room_row option) list" where
  "never_reserved_where db =
     filter (\<lambda>(b, rm, rr). (case rr of None \<Rightarrow> True | Some x \<Rightarrow> rr_roomId x = None))
       (never_reserved_from db)"

definition never_reserved_rows ::
    "database \<Rightarrow> (building_row \<times> room_row \<times> reservation_room_row option) list" where
  "never_reserved_rows db =
     order_by (\<lambda>(b, rm, rr). (b_buildingName b, rm_roomNumber rm)) (never_reserved_where db)"

definition never_reserved_row ::
    "building_row \<times> room_row \<times> reservation_room_row option \<Rightarrow> pyrow" where
  "never_reserved_row j =
     [''buildingName'' \<mapsto> py_text (b_buildingName (fst j)),
      ''roomNumber'' \<mapsto> py_text (rm_roomNumber (fst (snd j)))]"

definition sql_never_reserved :: "database \<Rightarrow> exn + pyrow list" where
  "sql_never_reserved db =
     sqlite_prepare [''building'', ''room'', ''reservation_room'']
       (map never_reserved_row (never_reserved_rows db))"

text \<open>
  Query 1 [98] and [264]: \<^verbatim>\<open>SELECT date(r.startDateTime) AS day, COUNT(*) AS num_reservations
  FROM reservation AS r GROUP BY date(r.startDateTime)\<close>, then \<^verbatim>\<open>ORDER BY day DESC LIMIT 10\<close>
  in \<^verbatim>\<open>my_reservations\<close> and \<^verbatim>\<open>ORDER BY day\<close> in \<^verbatim>\<open>employee_reservations_page\<close>.
\<close>

definition check_in_day :: "timefns \<Rightarrow> reservation_row \<Rightarrow> string option" where
  "check_in_day fns r = sql_date fns (r_startDateTime r)"

definition reservations_per_day :: "timefns \<Rightarrow> database \<Rightarrow> (string option \<times> nat) list" where
  "reservations_per_day fns db =
     map (\<lambda>(k, g). (k, length g)) (group_by (check_in_day fns) (reservation db))"

definition my_reservations_rows :: "timefns \<Rightarrow> database \<Rightarrow> (string option \<times> nat) list" where
  "my_reservations_rows fns db = take 10 (order_by_desc fst (reservations_per_day fns db))"

definition emp_reservations_rows :: "timefns \<Rightarrow> database \<Rightarrow> (string option \<times> nat) list" where
  "emp_reservations_rows fns db = order_by fst (reservations_per_day fns db)"

definition reservations_row :: "string option \<times> nat \<Rightarrow> pyrow" where
  "reservations_row g =
     [''day'' \<mapsto> py_text (fst g), ''num_reservations'' \<mapsto> PInt (int (snd g))]"

definition sql_my_reservations :: "timefns \<Rightarrow> database \<Rightarrow> exn + pyrow list" where
  "sql_my_reservations fns db =
     sqlite_prepare [''reservation''] (map reservations_row (my_reservations_rows fns db))"

definition sql_emp_reservations :: "timefns \<Rightarrow> database \<Rightarrow> exn + pyrow list" where
  "sql_emp_reservations fns db =
     sqlite_prepare [''reservation''] (map reservations_row (emp_reservations_rows fns db))"

text \<open>
  Query 4 [281]: \<^verbatim>\<open>SELECT CAST(strftime('%%Y', t.transactionDate) AS INTEGER) AS yr,
  CAST(strftime('%%m', t.transactionDate) AS INTEGER) AS mo, SUM(t.amount) AS total_revenue,
  COUNT(*) AS num_tx FROM transaction AS t
  GROUP BY strftime('%%Y', t.transactionDate), strftime('%%m', t.transactionDate)
  ORDER BY yr, mo\<close>. The text reaches SQLite as it stands: \<^verbatim>\<open>cursor.execute\<close> of \<^verbatim>\<open>sqlite3\<close>
  does no percent formatting, so the format strings are \<^verbatim>\<open>%%Y\<close> and \<^verbatim>\<open>%%m\<close>.
\<close>

definition revenue_key :: "timefns \<Rightarrow> transaction_row \<Rightarrow> string option \<times> string option" where
  "revenue_key fns t =
     (sql_strftime fns ''%%Y'' (t_transactionDate t), sql_strftime fns ''%%m'' (t_transactionDate t))"

definition revenue_groups ::
    "timefns \<Rightarrow> database \<Rightarrow> (int option \<times> int option \<times> real option \<times> nat) list" where
  "revenue_groups fns db =
     map (\<lambda>(k, g). (sql_cast_integer (fst k), sql_cast_integer (snd k),
                     sql_sum fns (map t_amount g), length g))
       (group_by (revenue_key fns) (transaction db))"

definition revenue_row :: "int option \<times> int option \<times> real option \<times> nat \<Rightarrow> pyrow" where
  "revenue_row g =
     [''yr'' \<mapsto> py_integer (fst g),
      ''mo'' \<mapsto> py_integer (fst (snd g)),
      ''total_revenue'' \<mapsto> py_float (fst (snd (snd g))),
      ''num_tx'' \<mapsto> PInt (int (snd (snd (snd g))))]"

definition revenue_select :: "timefns \<Rightarrow> database \<Rightarrow> pyrow list" where
  "revenue_select fns db =
     map revenue_row (order_by (\<lambda>g. (fst g, fst (snd g))) (revenue_groups fns db))"

definition sql_revenue :: "timefns \<Rightarrow> database \<Rightarrow> exn + pyrow list" where
  "sql_revenue fns db = sqlite_prepare [''transaction''] (revenue_select fns db)"

subsection \<open>Vocabulary of the properties\<close>

text \<open>The number a Python value stands for (0 for a value that is no number).\<close>

fun py_real :: "pyval \<Rightarrow> real" where
  "py_real (PInt a) = real_of_int a"
| "py_real (PFloat x) = x"
| "py_real _ = 0"

text \<open>
  The rows that \<^verbatim>\<open>query_db(q)\<close> hands to the view, if it returns: the rows of the statement,
  or no row after an error of \<^verbatim>\<open>cursor.execute\<close> that it swallowed.
\<close>

definition rows_returned :: "env \<Rightarrow> stmt \<Rightarrow> pyrow list option" where
  "rows_returned env q =
     (case sqlite3_connect env of
        Inl e \<Rightarrow> None
      | Inr conn \<Rightarrow>
          (case cursor_execute conn q of
             Inr rows \<Rightarrow> Some rows
           | Inl (SqliteError msg) \<Rightarrow> Some []
           | Inl e \<Rightarrow> None))"

text \<open>The statements that the view of a route executes.\<close>

fun statements_of :: "route \<Rightarrow> stmt list" where
  "statements_of R_account = [Q_account]"
| "statements_of R_guest_rooms = [Q_guest_rooms]"
| "statements_of R_meeting_spaces = [Q_meeting_spaces]"
| "statements_of R_my_reservations = [Q_my_reservations]"
| "statements_of R_book = [Q_book_room_types, Q_book_meeting_types]"
| "statements_of R_staff_roster = [Q_staff]"
| "statements_of R_card_management = [Q_staff_cards]"
| "statements_of R_employee_rooms = [Q_forum_posts, Q_room_types, Q_meeting_events]"
| "statements_of R_employee_customer_cards = [Q_customer_cards]"
| "statements_of R_employee_room_list = [Q_room_list]"
| "statements_of R_employee_reservations = [Q_emp_reservations]"
| "statements_of R_employee_revenue = [Q_revenue]"
| "statements_of R_rooms_never_reserved = [Q_never_reserved]"
| "statements_of _ = []"

text \<open>The view rendered a page, and the page shows \<open>v\<close> under the name \<open>name\<close>.\<close>

definition displays :: "(exn + response) \<times> world \<Rightarrow> string \<Rightarrow> ctxval \<Rightarrow> bool" where
  "displays result name v =
     (case fst result of
        Inl e \<Rightarrow> False
      | Inr page \<Rightarrow> map_of (context_of page) name = Some v)"

text \<open>The items that \<^verbatim>\<open>sum(r.get(field, 0) for r in rows)\<close> adds.\<close>

definition column :: "string \<Rightarrow> pyrow list \<Rightarrow> pyval list" where
  "column field rows = map (\<lambda>r. dict_get r field (PInt 0)) rows"

text \<open>Every row holds a number in the column, or lacks the column (read as 0).\<close>

definition numeric_field :: "string \<Rightarrow> pyrow list \<Rightarrow> bool" where
  "numeric_field field rows = list_all (\<lambda>v. py_num v \<noteq> None) (column field rows)"

definition integer_field :: "string \<Rightarrow> pyrow list \<Rightarrow> bool" where
  "integer_field field rows = list_all is_int (column field rows)"

text \<open>
  The sum of a column over the rows: the arithmetic sum when the column holds integers,
  the interpreter's floating-point sum of the same items when a float is among them.
\<close>

definition column_total :: "env \<Rightarrow> string \<Rightarrow> pyrow list \<Rightarrow> pyval" where
  "column_total env field rows =
     (if integer_field field rows then PInt (\<Sum>v\<leftarrow>column field rows. int_of v)
      else PFloat (float_sum env (column field rows)))"

text \<open>What \<^verbatim>\<open>COUNT(*)\<close> puts into a column: an \<^verbatim>\<open>int\<close> that is not negative.\<close>

definition is_count :: "pyval \<Rightarrow> bool" where
  "is_count v = (case v of PInt n \<Rightarrow> 0 \<le> n | _ \<Rightarrow> False)"

text \<open>The room references exactly one row of \<^verbatim>\<open>building\<close>.\<close>

definition in_one_building :: "database \<Rightarrow> room_row \<Rightarrow> bool" where
  "in_one_building db rm =
     (length (filter (\<lambda>b. sql_eq (rm_buildingId rm) (b_buildingId b)) (building db)) = 1)"

text \<open>The room references some row of \<^verbatim>\<open>building\<close>.\<close>

definition has_building :: "database \<Rightarrow> room_row \<Rightarrow> bool" where
  "has_building db rm = list_ex (\<lambda>b. sql_eq (rm_buildingId rm) (b_buildingId b)) (building db)"

text \<open>Some row of \<^verbatim>\<open>reservation_room\<close> references the room.\<close>

definition reserved :: "database \<Rightarrow> room_row \<Rightarrow> bool" where
  "reserved db rm = list_ex (\<lambda>rr. sql_eq (rr_roomId rr) (rm_roomId rm)) (reservation_room db)"

text \<open>The rooms behind the rows of Query 9.\<close>

definition never_reserved_rooms :: "database \<Rightarrow> room_row list" where
  "never_reserved_rooms db = map (\<lambda>j. fst (snd j)) (never_reserved_rows db)"

text \<open>The join rows of Query 3 that belong to a room type.\<close>

definition bookings_of :: "database \<Rightarrow> string option \<Rightarrow> booking list" where
  "bookings_of db t = filter (\<lambda>j. booking_type j = t) (room_types_from db)"

text \<open>
  The stay of a join row of Query 3: its reservation has a start and an end that SQLite
  reads as time values (\<open>dated\<close>), and the stay is the end's Julian day minus the start's.
\<close>

definition julian :: "timefns \<Rightarrow> string option \<Rightarrow> real" where
  "julian fns x = (case sql_julianday fns x of None \<Rightarrow> 0 | Some d \<Rightarrow> d)"

definition dated :: "timefns \<Rightarrow> booking \<Rightarrow> bool" where
  "dated fns j =
     (sql_julianday fns (r_endDateTime (snd (snd (snd j)))) \<noteq> None
      \<and> sql_julianday fns (r_startDateTime (snd (snd (snd j)))) \<noteq> None)"

definition days_between :: "timefns \<Rightarrow> booking \<Rightarrow> real" where
  "days_between fns j =
     real_minus fns (julian fns (r_endDateTime (snd (snd (snd j)))))
       (julian fns (r_startDateTime (snd (snd (snd j)))))"

text \<open>
  The average stay of some join rows: SQLite's mean of the stays of the dated rows,
  \<^verbatim>\<open>NULL\<close> when no row is dated.
\<close>

definition average_stay :: "timefns \<Rightarrow> booking list \<Rightarrow> real option" where
  "average_stay fns js =
     (if filter (dated fns) js = [] then None
      else Some (real_avg fns (map (days_between fns) (filter (dated fns) js))))"

subsection \<open>Sample inputs\<close>

definition w0 :: world where
  "w0 = \<lparr>stdout = [], opened = 0, closed = 0\<rparr>"

text \<open>
  The numbers of the samples are small integers, on which double arithmetic is exact; the
  samples take the exact sum, quotient, difference and mean for the float operations.
\<close>

definition exact_sum :: "pyval list \<Rightarrow> real" where
  "exact_sum vs = (\<Sum>v\<leftarrow>vs. py_real v)"

definition exact_mean :: "real list \<Rightarrow> real" where
  "exact_mean xs = sum_list xs / real (length xs)"

text \<open>The database file cannot be opened: \<^verbatim>\<open>sqlite3.connect\<close> raises \<^verbatim>\<open>OperationalError\<close>.\<close>

definition unreachable :: env where
  "unreachable =
     \<lparr>sqlite3_connect = Inl (SqliteError ''unable to open database file''),
      float_sum = exact_sum, float_div = (/)\<rparr>"

text \<open>A connection that answers every statement with the same rows.\<close>

definition const_env :: "pyrow list \<Rightarrow> env" where
  "const_env rows =
     \<lparr>sqlite3_connect = Inr \<lparr>cursor_execute = (\<lambda>q. Inr rows)\<rparr>,
      float_sum = exact_sum, float_div = (/)\<rparr>"

text \<open>A customer whose only bill has no amount: \<^verbatim>\<open>SUM(b.totalAmount)\<close> is \<^verbatim>\<open>NULL\<close>.\<close>

definition unbilled_customer :: pyrow where
  "unbilled_customer =
     [''customerId'' \<mapsto> PInt 1, ''last_name'' \<mapsto> PStr ''Doe'', ''first_name'' \<mapsto> PStr ''Jo'',
      ''bills'' \<mapsto> PInt 1, ''total_billed'' \<mapsto> PNone]"

definition two_counts :: "pyrow list" where
  "two_counts =
     [[''room_status'' \<mapsto> PStr ''available'', ''num_rooms'' \<mapsto> PInt 2, ''isActive'' \<mapsto> PInt 1],
      [''room_status'' \<mapsto> PStr ''occupied'', ''num_rooms'' \<mapsto> PInt 3, ''isActive'' \<mapsto> PInt 0]]"

text \<open>
  A small hotel: two buildings, one status row, two rooms (both available), two room
  types (no room is a suite), three reservations, room 1 booked twice and room 2 never,
  two transactions in different months. The time values are given by table.
\<close>

definition sample_times :: timefns where
  "sample_times =
     \<lparr>calendar = map_of
        [(''2024-01-15 12:00:00'', (2024, 1, 15)),
         (''2024-01-17 12:00:00'', (2024, 1, 17)),
         (''2024-02-10 12:00:00'', (2024, 2, 10)),
         (''2024-02-14 12:00:00'', (2024, 2, 14))],
      julianday_of = map_of
        [(''2024-01-15 12:00:00'', 2460325),
         (''2024-01-17 12:00:00'', 2460327),
         (''2024-02-10 12:00:00'', 2460351),
         (''2024-02-14 12:00:00'', 2460355)],
      real_minus = (-), real_avg = exact_mean, real_sum = sum_list\<rparr>"

definition room1 :: room_row where
  "room1 = \<lparr>rm_roomId = Some 1, rm_roomNumber = Some ''101'', rm_buildingId = Some 1,
            rm_roomTypeId = Some 1, rm_roomStatusId = Some 1\<rparr>"

definition room2 :: room_row where
  "room2 = \<lparr>rm_roomId = Some 2, rm_roomNumber = Some ''201'', rm_buildingId = Some 2,
            rm_roomTypeId = Some 1, rm_roomStatusId = Some 1\<rparr>"

definition available_status :: room_status_row where
  "available_status = \<lparr>rs_roomStatusId = Some 1, rs_status = Some ''available''\<rparr>"

definition sample_db :: database where
  "sample_db =
     \<lparr>building =
        [\<lparr>b_buildingId = Some 1, b_buildingName = Some ''East''\<rparr>,
         \<lparr>b_buildingId = Some 2, b_buildingName = Some ''West''\<rparr>],
      room = [room1, room2],
      room_status = [available_status],
      room_type =
        [\<lparr>rt_roomTypeId = Some 1, rt_roomType = Some ''single''\<rparr>,
         \<lparr>rt_roomTypeId = Some 2, rt_roomType = Some ''suite''\<rparr>],
      reservation =
        [\<lparr>r_reservationId = Some 1, r_startDateTime = Some ''2024-01-15 12:00:00'',
          r_endDateTime = Some ''2024-01-17 12:00:00''\<rparr>,
         \<lparr>r_reservationId = Some 2, r_startDateTime = Some ''2024-02-10 12:00:00'',
          r_endDateTime = Some ''2024-02-14 12:00:00''\<rparr>,
         \<lparr>r_reservationId = Some 3, r_startDateTime = Some ''2024-01-15 12:00:00'',
          r_endDateTime = Some ''2024-01-17 12:00:00''\<rparr>],
      reservation_room =
        [\<lparr>rr_reservationId = Some 1, rr_roomId = Some 1\<rparr>,
         \<lparr>rr_reservationId = Some 2, rr_roomId = Some 1\<rparr>],
      transaction =
        [\<lparr>t_transactionDate = Some ''2024-01-15 12:00:00'', t_amount = Some 100\<rparr>,
         \<lparr>t_transactionDate = Some ''2024-02-10 12:00:00'', t_amount = Some 50\<rparr>]\<rparr>"

text \<open>
  A connection to a database: the statements modelled above are answered as SQLite answers
  them. The tables \<^verbatim>\<open>customer_requests\<close> and \<^verbatim>\<open>meeting_space\<close> are not part of \<open>database\<close>;
  the samples take them to be empty, so that the two other statements of
  \<^verbatim>\<open>/employee/rooms\<close>, both grouped, return no row. No sample runs a view that executes one
  of the remaining statements; they are answered with no row as well.
\<close>

definition conn_of :: "timefns \<Rightarrow> database \<Rightarrow> connection" where
  "conn_of fns db =
     \<lparr>cursor_execute = (\<lambda>q.
        if q = Q_revenue then sql_revenue fns db
        else if q = Q_room_list then sql_room_list db
        else if q = Q_room_types then sql_room_types fns db
        else if q = Q_never_reserved then sql_never_reserved db
        else if q = Q_my_reservations then sql_my_reservations fns db
        else if q = Q_emp_reservations then sql_emp_reservations fns db
        else Inr [])\<rparr>"

definition env_of :: "timefns \<Rightarrow> database \<Rightarrow> env" where
  "env_of fns db =
     \<lparr>sqlite3_connect = Inr (conn_of fns db), float_sum = exact_sum, float_div = (/)\<rparr>"

definition sample_conn :: connection where
  "sample_conn = conn_of sample_times sample_db"

definition sample_env :: env where
  "sample_env = env_of sample_times sample_db"

text \<open>The sample hotel before its first reservation: the table \<^verbatim>\<open>reservation\<close> is empty.\<close>

definition unbooked_db :: database where
  "unbooked_db = sample_db\<lparr>reservation := [], reservation_room := []\<rparr>"

text \<open>The sample hotel with a third room that references no building and was never reserved.\<close>

definition attic :: room_row where
  "attic = \<lparr>rm_roomId = Some 3, rm_roomNumber = Some ''301'', rm_buildingId = None,
            rm_roomTypeId = Some 1, rm_roomStatusId = Some 1\<rparr>"

definition attic_db :: database where
  "attic_db = sample_db\<lparr>room := [room1, attic]\<rparr>"

text \<open>The sample hotel with a single booking, of room 1, that has no end date yet.\<close>

definition open_stay_db :: database where
  "open_stay_db =
     sample_db
       \<lparr>reservation :=
          [\<lparr>r_reservationId = Some 1, r_startDateTime = Some ''2024-01-15 12:00:00'',
            r_endDateTime = None\<rparr>],
        reservation_room := [\<lparr>rr_reservationId = Some 1, rr_roomId = Some 1\<rparr>]\<rparr>"

text \<open>Twelve reservations that check in on twelve different days of one month.\<close>

definition march_times :: timefns where
  "march_times =
     \<lparr>calendar = (\<lambda>s. if take 8 s = ''2024-03-'' \<and> length s = 10
                       then Some (2024, 3, leading_digits 0 (drop 8 s)) else None),
      julianday_of = (\<lambda>s. None),
      real_minus = (-), real_avg = exact_mean, real_sum = sum_list\<rparr>"

definition march_db :: database where
  "march_db =
     \<lparr>building = [], room = [], room_status = [], room_type = [],
      reservation =
        map (\<lambda>d. \<lparr>r_reservationId = None, r_startDateTime = Some (''2024-03-'' @ d),
                   r_endDateTime = None\<rparr>)
          [''01'', ''02'', ''03'', ''04'', ''05'', ''06'', ''07'', ''08'', ''09'', ''10'',
           ''11'', ''12''],
      reservation_room = [], transaction = []\<rparr>"

section \<open>Properties\<close>

subsection \<open>\<^verbatim>\<open>query_db\<close>\<close>

lemma query_rows_connect_fails:
  "sqlite3_connect env = Inl e \<Longrightarrow> query_rows env q w = (Inl e, w)"
  by (simp add: query_rows_def query_db_def get_db_connection_def)

lemma query_rows_returns:
  "sqlite3_connect env = Inr conn \<Longrightarrow> cursor_execute conn q = Inr rows \<Longrightarrow>
   query_rows env q w = (Inr rows, conn_close (w\<lparr>opened := Suc (opened w)\<rparr>))"
  by (simp add: query_rows_def query_db_def get_db_connection_def)

lemma query_rows_swallows:
  "sqlite3_connect env = Inr conn \<Longrightarrow> cursor_execute conn q = Inl (SqliteError msg) \<Longrightarrow>
   query_rows env q w =
     (Inr [], conn_close (print (''Query error: '' @ msg) (w\<lparr>opened := Suc (opened w)\<rparr>)))"
  by (simp add: query_rows_def query_db_def get_db_connection_def empty_result_def)

text \<open>
  An error of \<^verbatim>\<open>cursor.execute\<close> is caught: the caller gets the empty result, the message
  is printed, the connection is closed.
\<close>

lemma query_db_swallows_execute_error:
  "sqlite3_connect env = Inr conn \<Longrightarrow> cursor_execute conn q = Inl (SqliteError msg) \<Longrightarrow>
   query_db env q one w =
     (Inr (empty_result one),
      conn_close (print (''Query error: '' @ msg) (w\<lparr>opened := Suc (opened w)\<rparr>)))"
  by (simp add: query_db_def get_db_connection_def)

lemma query_db_connected_no_sqlite_error:
  "sqlite3_connect env = Inr conn \<Longrightarrow> fst (query_db env q one w) \<noteq> Inl (SqliteError msg)"
  by (auto simp add: query_db_def get_db_connection_def split: sum.splits exn.splits)

text \<open>
  \<^verbatim>\<open>get_db_connection\<close> never returns \<^verbatim>\<open>None\<close>, so the branch \<^verbatim>\<open>if conn is None\<close> of
  \<^verbatim>\<open>query_db\<close> is never taken.
\<close>

lemma get_db_connection_never_None: "fst (get_db_connection env w) \<noteq> Inr None"
  by (simp add: get_db_connection_def split: sum.splits)

text \<open>\<open>rows_returned\<close> is what the view gets from \<^verbatim>\<open>query_db\<close>, in every world.\<close>

lemma rows_returned_iff:
  "rows_returned env q = Some rows \<longleftrightarrow> (\<exists>w1. query_rows env q w = (Inr rows, w1))"
  by (auto simp: rows_returned_def query_rows_def query_db_def get_db_connection_def
      empty_result_def split: sum.splits exn.splits)

lemma query_rows_of_returned:
  "rows_returned env q = Some rows \<Longrightarrow> \<exists>w1. query_rows env q w = (Inr rows, w1)"
  by (simp add: rows_returned_iff[of env q rows w])

lemma rows_returned_execute:
  "sqlite3_connect env = Inr conn \<Longrightarrow> cursor_execute conn q = Inr rows \<Longrightarrow>
   rows_returned env q = Some rows"
  by (simp add: rows_returned_def)

lemmas stat_defs = render_template_def sum_field_def len_or_zero_def
  sum_available_def average_per_day_def distinct_truthy_def

subsection \<open>\<^verbatim>\<open>sum\<close>\<close>

lemma py_sum_ints:
  "py_sum fsum (map (\<lambda>x. PInt (f x)) xs) = Inr (PInt (\<Sum>x\<leftarrow>xs. f x))"
  by (simp add: py_sum_def list_ex_iff list_all_iff comp_def)

lemma py_sum_numeric:
  "list_all (\<lambda>v. py_num v \<noteq> None) vs \<Longrightarrow>
   py_sum fsum vs =
     Inr (if list_all is_int vs then PInt (\<Sum>v\<leftarrow>vs. int_of v) else PFloat (fsum vs))"
  by (auto simp: py_sum_def list_ex_iff list_all_iff)

lemma py_sum_type_error:
  "list_ex (\<lambda>v. py_num v = None) vs \<Longrightarrow>
   py_sum fsum vs = Inl (TypeError ''unsupported operand type(s) for +'')"
  by (simp add: py_sum_def)

lemma sum_field_total:
  "numeric_field field rows \<Longrightarrow> sum_field env field rows = Inr (column_total env field rows)"
  by (auto simp: sum_field_def numeric_field_def column_total_def integer_field_def column_def
      py_sum_numeric)

subsection \<open>Grouping and ordering\<close>

lemma group_by_keys: "fst ` set (group_by key xs) = key ` set xs"
proof (induction key xs rule: group_by.induct)
  case (1 key)
  then show ?case by simp
next
  case (2 key x xs)
  then show ?case by auto
qed

text \<open>A group holds exactly the rows with its key, and at least one.\<close>

lemma group_by_group:
  "(k, g) \<in> set (group_by key xs) \<Longrightarrow> g = filter (\<lambda>y. key y = k) xs \<and> g \<noteq> []"
proof (induction key xs arbitrary: k g rule: group_by.induct)
  case (1 key)
  then show ?case by simp
next
  case (2 key x xs)
  show ?case
  proof (cases "(k, g) = (key x, x # filter (\<lambda>y. key y = key x) xs)")
    case True
    then show ?thesis by auto
  next
    case False
    with "2.prems" have mem: "(k, g) \<in> set (group_by key (filter (\<lambda>y. key y \<noteq> key x) xs))"
      by auto
    from "2.IH"[OF mem]
    have g: "g = filter (\<lambda>y. key y = k) (filter (\<lambda>y. key y \<noteq> key x) xs)" "g \<noteq> []"
      by auto
    have "k \<in> key ` set (filter (\<lambda>y. key y \<noteq> key x) xs)"
      using mem group_by_keys[of key "filter (\<lambda>y. key y \<noteq> key x) xs"] by force
    then have ne: "k \<noteq> key x" by auto
    have "filter (\<lambda>y. key y = k) (filter (\<lambda>y. key y \<noteq> key x) xs) = filter (\<lambda>y. key y = k) xs"
      using ne by (auto intro: filter_cong)
    with g ne show ?thesis by auto
  qed
qed

lemma group_by_distinct: "distinct (map fst (group_by key xs))"
proof (induction key xs rule: group_by.induct)
  case (1 key)
  then show ?case by simp
next
  case (2 key x xs)
  have "key x \<notin> fst ` set (group_by key (filter (\<lambda>y. key y \<noteq> key x) xs))"
    unfolding group_by_keys by auto
  with 2 show ?case by simp
qed

text \<open>The sizes of the groups whose key satisfies \<open>P\<close> add up to the number of such rows.\<close>

lemma group_by_sizes:
  "(\<Sum>kg\<leftarrow>filter (\<lambda>kg. P (fst kg)) (group_by key xs). length (snd kg)) =
   length (filter (\<lambda>x. P (key x)) xs)"
proof (induction key xs rule: group_by.induct)
  case (1 key)
  then show ?case by simp
next
  case (2 key x xs)
  have split: "length (filter (\<lambda>y. P (key y)) xs) =
        length (filter (\<lambda>y. P (key y)) (filter (\<lambda>y. key y = key x) xs))
      + length (filter (\<lambda>y. P (key y)) (filter (\<lambda>y. key y \<noteq> key x) xs))"
    by (induction xs) auto
  have same: "filter (\<lambda>y. P (key y)) (filter (\<lambda>y. key y = key x) xs) =
      (if P (key x) then filter (\<lambda>y. key y = key x) xs else [])"
    by (induction xs) auto
  show ?case using "2.IH" split same by simp
qed

lemma group_by_member:
  assumes "x \<in> set xs"
  shows "(key x, filter (\<lambda>y. key y = key x) xs) \<in> set (group_by key xs)"
proof -
  from assms have "key x \<in> fst ` set (group_by key xs)" unfolding group_by_keys by simp
  then obtain g where g: "(key x, g) \<in> set (group_by key xs)" by force
  from group_by_group[OF g] g show ?thesis by simp
qed

lemma insort_key_distinct_map:
  "distinct (map f (insort_key k x xs)) \<longleftrightarrow> f x \<notin> f ` set xs \<and> distinct (map f xs)"
  by (induction xs) (auto simp: set_insort_key)

lemma sort_key_distinct_map: "distinct (map f (sort_key k xs)) \<longleftrightarrow> distinct (map f xs)"
  by (induction xs) (auto simp: insort_key_distinct_map)

lemma insort_filter_sum:
  "(\<Sum>y\<leftarrow>filter P (insort_key k x xs). f y) =
   (if P x then f x else 0) + (\<Sum>y\<leftarrow>filter P xs. (f y :: 'b :: comm_monoid_add))"
  by (induction xs) (auto simp: algebra_simps)

lemma sort_key_filter_sum:
  "(\<Sum>y\<leftarrow>filter P (sort_key k xs). f y) = (\<Sum>y\<leftarrow>filter P xs. (f y :: 'b :: comm_monoid_add))"
  by (induction xs) (auto simp: insort_filter_sum)

text \<open>
  In a list that is sorted by distinct keys, the first \<open>n\<close> rows from the end have larger
  keys than every other row.
\<close>

lemma top_of_descending:
  assumes "sorted (map k xs)" "distinct (map k xs)"
    and "x \<in> set (take n (rev xs))" "y \<in> set xs" "y \<notin> set (take n (rev xs))"
  shows "k y < k x"
proof -
  let ?l = "rev xs"
  have "sorted_wrt (<) (map k xs)" using assms(1,2) by (simp add: strict_sorted_iff)
  then have "sorted_wrt (\<lambda>a b. b < a) (map k ?l)"
    by (simp add: rev_map[symmetric] sorted_wrt_rev)
  then have "sorted_wrt (\<lambda>a b. b < a) (map k (take n ?l) @ map k (drop n ?l))"
    by (simp add: map_append[symmetric] del: map_append)
  then have *: "\<forall>a\<in>set (map k (take n ?l)). \<forall>b\<in>set (map k (drop n ?l)). b < a"
    by (simp add: sorted_wrt_append)
  have "y \<in> set (take n ?l) \<union> set (drop n ?l)"
    using assms(4) by (simp add: set_append[symmetric] del: set_append)
  with assms(5) have "y \<in> set (drop n ?l)" by blast
  with * assms(3) show ?thesis by auto
qed


lemma group_by_total: "(\<Sum>kg\<leftarrow>group_by key xs. length (snd kg)) = length xs"
  using group_by_sizes[of "\<lambda>_. True" key xs] by simp

lemma sort_key_sum: "(\<Sum>y\<leftarrow>sort_key k xs. f y) = (\<Sum>y\<leftarrow>xs. (f y :: 'b :: comm_monoid_add))"
  using sort_key_filter_sum[where P = "\<lambda>_. True" and k = k and xs = xs and f = f] by simp

lemma int_sum_list: "(\<Sum>x\<leftarrow>xs. int (f x)) = int (\<Sum>x\<leftarrow>xs. f x)"
  by (induction xs) auto

lemma filter_unique_key:
  "distinct (map k xs) \<Longrightarrow> x \<in> set xs \<Longrightarrow> filter (\<lambda>y. k y = k x) xs = [x]"
proof (induction xs)
  case Nil
  then show ?case by simp
next
  case (Cons a xs)
  show ?case
  proof (cases "a = x")
    case True
    with Cons.prems(1) have "filter (\<lambda>y. k y = k x) xs = []"
      by (auto simp: filter_empty_conv) (metis image_eqI)
    with True show ?thesis by simp
  next
    case False
    with Cons.prems have "x \<in> set xs" "k a \<noteq> k x" by auto
    with Cons show ?thesis by simp
  qed
qed

text \<open>Counting per key can be done on the keys alone.\<close>

lemma group_by_counts_of_keys:
  "map (\<lambda>(k, g). (k, length g)) (group_by key xs) =
   map (\<lambda>(k, g). (k, length g)) (group_by id (map key xs))"
proof (induction key xs rule: group_by.induct)
  case (1 key)
  then show ?case by simp
next
  case (2 key x xs)
  show ?case using "2.IH" by (simp add: filter_map comp_def)
qed

subsection \<open>A database file that cannot be opened\<close>

text \<open>
  C3. The claim: no database error is ever raised out of \<^verbatim>\<open>query_db\<close> to the route. The
  code at a database file that cannot be opened: \<^verbatim>\<open>sqlite3.connect\<close> raises before the
  \<^verbatim>\<open>try\<close>, and \<^verbatim>\<open>query_db\<close> passes the \<^verbatim>\<open>sqlite3.OperationalError\<close> on to its caller;
  nothing is printed.
\<close>

theorem query_db_raises_connect_error:
  "query_db unreachable Q_staff False w0 =
     (Inl (SqliteError ''unable to open database file''), w0)"
  by (simp add: query_db_def get_db_connection_def unreachable_def)

text \<open>
  C2. The claim: with the database unreachable every route still returns its own page with
  empty collections. The code at a database file that cannot be opened: the exception of
  \<^verbatim>\<open>sqlite3.connect\<close> leaves \<^verbatim>\<open>query_db\<close> and the view, and the global handler renders
  \<^verbatim>\<open>error.html\<close> in place of \<^verbatim>\<open>guest_rooms.html\<close>.
\<close>

theorem unreachable_database_error_page:
  "dispatch R_guest_rooms unreachable w0 =
     (Rendered ''error.html'' [(''error'', CExn (SqliteError ''unable to open database file''))],
      w0)"
  by (simp add: dispatch_def guest_rooms_def query_rows_connect_fails unreachable_def
      handle_error_def render_template_def)

subsection \<open>A report over an empty table\<close>

text \<open>
  When the statements of a route return no row, its view renders the route's own page, and
  all the page shows is blank.
\<close>

lemma blank_page:
  assumes n: "list_all (\<lambda>q. rows_returned env q = Some []) (statements_of r)"
  shows "\<exists>ctx w1. view_of r env w = (Inr (Rendered (page_of r) ctx), w1)
           \<and> (\<forall>(k, v) \<in> set ctx. blank v)"
proof -
  have q: "\<exists>w1. query_rows env q w = (Inr [], w1)" if "rows_returned env q = Some []" for q w
    using query_rows_of_returned[OF that] .
  show ?thesis
  proof (cases r)
    case R_account
    then show ?thesis using n q[of Q_account w] by (auto simp: account_def stat_defs)
  next
    case R_guest_rooms
    then show ?thesis using n q[of Q_guest_rooms w] by (auto simp: guest_rooms_def stat_defs)
  next
    case R_meeting_spaces
    then show ?thesis
      using n q[of Q_meeting_spaces w] by (auto simp: meeting_spaces_page_def stat_defs)
  next
    case R_my_reservations
    then show ?thesis
      using n q[of Q_my_reservations w] by (auto simp: my_reservations_def stat_defs)
  next
    case R_book
    with n have e: "rows_returned env Q_book_room_types = Some []"
      "rows_returned env Q_book_meeting_types = Some []" by simp_all
    obtain w1 where 1: "query_rows env Q_book_room_types w = (Inr [], w1)"
      using q[OF e(1)] by blast
    obtain w2 where 2: "query_rows env Q_book_meeting_types w1 = (Inr [], w2)"
      using q[OF e(2)] by blast
    show ?thesis using R_book 1 2 by (simp add: book_def render_template_def)
  next
    case R_staff_roster
    then show ?thesis using n q[of Q_staff w] by (auto simp: staff_roster_def stat_defs)
  next
    case R_card_management
    then show ?thesis
      using n q[of Q_staff_cards w] by (auto simp: card_management_def stat_defs)
  next
    case R_employee_rooms
    with n have e: "rows_returned env Q_forum_posts = Some []"
      "rows_returned env Q_room_types = Some []"
      "rows_returned env Q_meeting_events = Some []" by simp_all
    obtain w1 where 1: "query_rows env Q_forum_posts w = (Inr [], w1)" using q[OF e(1)] by blast
    obtain w2 where 2: "query_rows env Q_room_types w1 = (Inr [], w2)" using q[OF e(2)] by blast
    obtain w3 where 3: "query_rows env Q_meeting_events w2 = (Inr [], w3)"
      using q[OF e(3)] by blast
    show ?thesis using R_employee_rooms 1 2 3
      by (simp add: employee_rooms_def render_template_def sum_field_def)
  next
    case R_employee_customer_cards
    then show ?thesis
      using n q[of Q_customer_cards w] by (auto simp: employee_customer_cards_def stat_defs)
  next
    case R_employee_room_list
    then show ?thesis
      using n q[of Q_room_list w] by (auto simp: employee_room_list_def stat_defs)
  next
    case R_employee_reservations
    then show ?thesis using n q[of Q_emp_reservations w]
      by (auto simp: employee_reservations_page_def stat_defs Let_def)
  next
    case R_employee_revenue
    then show ?thesis using n q[of Q_revenue w] by (auto simp: employee_revenue_def stat_defs)
  next
    case R_rooms_never_reserved
    then show ?thesis
      using n q[of Q_never_reserved w] by (auto simp: rooms_never_reserved_def stat_defs)
  qed (simp_all add: home_def signup_def profile_def confirmation_def management_login_def
        employee_login_def static_page_def render_template_def)
qed

lemma reservations_page_blank:
  assumes "rows_returned env Q_emp_reservations = Some []"
  shows "fst (employee_reservations_page env w) =
     Inr (Rendered ''employee_reservations.html''
       [(''reservations'', CRows []), (''total_reservations'', CVal (PInt 0)),
        (''total_days'', CVal (PInt 0)), (''avg_per_day'', CVal (PInt 0))])"
  using query_rows_of_returned[OF assms, of w]
  by (auto simp add: employee_reservations_page_def stat_defs Let_def)

text \<open>
  C7. For every report: when the statements that the report's view executes return zero
  rows, the route renders its own page without an exception, every collection on it is
  empty and every statistic is the integer 0; on \<^verbatim>\<open>/employee/reservations\<close> \<^verbatim>\<open>avg_per_day\<close>
  is 0 and no division takes place.
\<close>

theorem empty_tables_zero_totals:
  "(list_all (\<lambda>q. rows_returned env q = Some []) (statements_of r) \<longrightarrow>
      (\<exists>ctx w1. view_of r env w = (Inr (Rendered (page_of r) ctx), w1)
         \<and> (\<forall>(k, v) \<in> set ctx. blank v)))
   \<and> (rows_returned env Q_emp_reservations = Some [] \<longrightarrow>
        fst (employee_reservations_page env w) =
          Inr (Rendered ''employee_reservations.html''
            [(''reservations'', CRows []), (''total_reservations'', CVal (PInt 0)),
             (''total_days'', CVal (PInt 0)), (''avg_per_day'', CVal (PInt 0))]))"
  using blank_page[of env r w] reservations_page_blank[of env w] by blast

lemma unbooked_no_reservations:
  "rows_returned (env_of sample_times unbooked_db) Q_emp_reservations = Some []"
  "rows_returned (env_of sample_times unbooked_db) Q_my_reservations = Some []"
  by (simp_all add: rows_returned_def env_of_def conn_of_def sql_emp_reservations_def
      sql_my_reservations_def sqlite_prepare_def sqlite_reserved_def emp_reservations_rows_def
      my_reservations_rows_def order_by_def order_by_desc_def reservations_per_day_def
      unbooked_db_def sample_db_def)

theorem empty_tables_zero_totals_witness:
  "reservation unbooked_db = []
   \<and> list_all (\<lambda>q. rows_returned (env_of sample_times unbooked_db) q = Some [])
       (statements_of R_my_reservations)
   \<and> fst (view_of R_my_reservations (env_of sample_times unbooked_db) w0) =
       Inr (Rendered ''my_reservations.html''
         [(''reservations'', CRows []), (''total_reservations'', CVal (PInt 0))])
   \<and> fst (employee_reservations_page (env_of sample_times unbooked_db) w0) =
       Inr (Rendered ''employee_reservations.html''
         [(''reservations'', CRows []), (''total_reservations'', CVal (PInt 0)),
          (''total_days'', CVal (PInt 0)), (''avg_per_day'', CVal (PInt 0))])"
proof -
  have t: "reservation unbooked_db = []" by (simp add: unbooked_db_def)
  have h: "list_all (\<lambda>q. rows_returned (env_of sample_times unbooked_db) q = Some [])
      (statements_of R_my_reservations)"
    by (simp add: unbooked_no_reservations)
  from empty_tables_zero_totals[of "env_of sample_times unbooked_db" R_my_reservations w0] h
  obtain ctx w1 where p: "view_of R_my_reservations (env_of sample_times unbooked_db) w0 =
      (Inr (Rendered ''my_reservations.html'' ctx), w1)"
    by auto
  have v: "fst (view_of R_my_reservations (env_of sample_times unbooked_db) w0) =
       Inr (Rendered ''my_reservations.html''
         [(''reservations'', CRows []), (''total_reservations'', CVal (PInt 0))])"
    using query_rows_of_returned[OF unbooked_no_reservations(2), of w0] p
    by (auto simp: my_reservations_def stat_defs)
  from empty_tables_zero_totals[of "env_of sample_times unbooked_db" R_my_reservations w0]
  have e: "fst (employee_reservations_page (env_of sample_times unbooked_db) w0) =
       Inr (Rendered ''employee_reservations.html''
         [(''reservations'', CRows []), (''total_reservations'', CVal (PInt 0)),
          (''total_days'', CVal (PInt 0)), (''avg_per_day'', CVal (PInt 0))])"
    using unbooked_no_reservations(1) by simp
  from t h v e show ?thesis by blast
qed

subsection \<open>Totals computed from the rows\<close>

lemma sum_available_numeric:
  assumes "numeric_field ''num_rooms'' rows"
  shows "\<exists>t. sum_available env rows = Inr t"
proof -
  have "list_all (\<lambda>v. py_num v \<noteq> None)
      (map (\<lambda>r. dict_get r ''num_rooms'' (PInt 0))
        (filter (\<lambda>r. py_eq (dict_get1 r ''room_status'') (PStr ''available'')) rows))"
    using assms by (simp add: numeric_field_def column_def list_all_iff)
  from py_sum_numeric[OF this] show ?thesis by (simp add: sum_available_def)
qed

lemma column_total_numeric:
  "numeric_field field rows \<Longrightarrow> py_num (column_total env field rows) \<noteq> None"
  by (simp add: column_total_def)

lemma average_per_day_numeric:
  "py_num t \<noteq> None \<Longrightarrow> \<exists>a. average_per_day env t (len_or_zero rows) = Inr a"
  by (cases t) (auto simp: average_per_day_def len_or_zero_def py_truediv_def)

lemma displays_card_management:
  assumes "rows_returned env Q_staff_cards = Some rows" "numeric_field ''staff_swipes'' rows"
  shows "displays (card_management env w) ''total_swipes''
           (CVal (column_total env ''staff_swipes'' rows))"
  using sum_field_total[OF assms(2), of env] query_rows_of_returned[OF assms(1), of w]
  by (auto simp: card_management_def displays_def render_template_def Let_def)

lemma displays_customer_cards:
  assumes "rows_returned env Q_customer_cards = Some rows" "numeric_field ''total_billed'' rows"
  shows "displays (employee_customer_cards env w) ''total_revenue''
           (CVal (column_total env ''total_billed'' rows))"
  using sum_field_total[OF assms(2), of env] query_rows_of_returned[OF assms(1), of w]
  by (auto simp: employee_customer_cards_def displays_def render_template_def Let_def)

lemma displays_room_list:
  assumes "rows_returned env Q_room_list = Some rows" "numeric_field ''num_rooms'' rows"
  shows "displays (employee_room_list env w) ''total_rooms''
           (CVal (column_total env ''num_rooms'' rows))"
  using sum_field_total[OF assms(2), of env] sum_available_numeric[OF assms(2), of env]
    query_rows_of_returned[OF assms(1), of w]
  by (auto simp: employee_room_list_def displays_def render_template_def Let_def)

lemma displays_reservations:
  assumes "rows_returned env Q_emp_reservations = Some rows"
    "numeric_field ''num_reservations'' rows"
  shows "displays (employee_reservations_page env w) ''total_reservations''
           (CVal (column_total env ''num_reservations'' rows))"
proof -
  obtain a where a: "average_per_day env (column_total env ''num_reservations'' rows)
      (len_or_zero rows) = Inr a"
    using average_per_day_numeric[OF column_total_numeric[OF assms(2)]] by blast
  show ?thesis
    using sum_field_total[OF assms(2), of env] a query_rows_of_returned[OF assms(1), of w]
    by (auto simp: employee_reservations_page_def displays_def render_template_def Let_def)
qed

lemma displays_revenue:
  assumes "rows_returned env Q_revenue = Some rows"
    "numeric_field ''total_revenue'' rows" "numeric_field ''num_tx'' rows"
  shows "displays (employee_revenue env w) ''total_revenue''
           (CVal (column_total env ''total_revenue'' rows))
       \<and> displays (employee_revenue env w) ''total_transactions''
           (CVal (column_total env ''num_tx'' rows))"
  using sum_field_total[OF assms(2), of env] sum_field_total[OF assms(3), of env]
    query_rows_of_returned[OF assms(1), of w]
  by (auto simp: employee_revenue_def displays_def render_template_def Let_def)

lemma displays_employee_rooms:
  assumes e: "rows_returned env Q_forum_posts = Some posts"
      "rows_returned env Q_room_types = Some types"
      "rows_returned env Q_meeting_events = Some events"
    and n: "numeric_field ''open_requests'' posts" "numeric_field ''num_room_bookings'' types"
      "numeric_field ''events_count'' events"
  shows "displays (employee_rooms env w) ''total_requests''
           (CVal (column_total env ''open_requests'' posts))
       \<and> displays (employee_rooms env w) ''total_bookings''
           (CVal (column_total env ''num_room_bookings'' types))
       \<and> displays (employee_rooms env w) ''total_events''
           (CVal (column_total env ''events_count'' events))
       \<and> displays (employee_rooms env w) ''room_types'' (CRows types)"
proof -
  obtain w1 where 1: "query_rows env Q_forum_posts w = (Inr posts, w1)"
    using query_rows_of_returned[OF e(1)] by blast
  obtain w2 where 2: "query_rows env Q_room_types w1 = (Inr types, w2)"
    using query_rows_of_returned[OF e(2)] by blast
  obtain w3 where 3: "query_rows env Q_meeting_events w2 = (Inr events, w3)"
    using query_rows_of_returned[OF e(3)] by blast
  show ?thesis
    using 1 2 3 sum_field_total[OF n(1), of env] sum_field_total[OF n(2), of env]
      sum_field_total[OF n(3), of env]
    by (simp add: employee_rooms_def displays_def render_template_def)
qed

text \<open>
  C6, as the claim states it, fails on a row sequence in which the summed column holds
  \<^verbatim>\<open>None\<close>: for a customer whose bills carry no amount \<^verbatim>\<open>SUM(b.totalAmount)\<close> is \<^verbatim>\<open>NULL\<close>,
  \<^verbatim>\<open>c.get('total_billed', 0)\<close> is \<^verbatim>\<open>None\<close>, \<^verbatim>\<open>sum\<close> raises \<^verbatim>\<open>TypeError\<close>, and the request
  ends in the error page without any total.
\<close>

theorem total_of_null_column_counterexample:
  "fst (dispatch R_employee_customer_cards (const_env [unbilled_customer]) w0) =
     Rendered ''error.html'' [(''error'', CExn (TypeError ''unsupported operand type(s) for +''))]"
  by (simp add: dispatch_def employee_customer_cards_def query_rows_def query_db_def
      get_db_connection_def const_env_def unbilled_customer_def sum_field_def py_sum_def
      dict_get_def len_or_zero_def handle_error_def render_template_def)

text \<open>
  C6, amended. For every report that derives a total from row data, and every row
  sequence that \<^verbatim>\<open>query_db\<close> returns to the view in which every column that the view sums
  holds a number in every row (a row without the column counts as 0), the page is rendered
  and the total is the sum of its column over all returned rows: the arithmetic sum when
  the column holds integers, Python's floating-point sum of the same values when a float
  is among them.
\<close>

theorem totals_are_field_sums:
  "(rows_returned env Q_staff_cards = Some cards \<longrightarrow> numeric_field ''staff_swipes'' cards \<longrightarrow>
      displays (card_management env w) ''total_swipes''
        (CVal (column_total env ''staff_swipes'' cards)))
   \<and> (rows_returned env Q_forum_posts = Some posts \<longrightarrow>
      rows_returned env Q_room_types = Some types \<longrightarrow>
      rows_returned env Q_meeting_events = Some events \<longrightarrow>
      numeric_field ''open_requests'' posts \<longrightarrow> numeric_field ''num_room_bookings'' types \<longrightarrow>
      numeric_field ''events_count'' events \<longrightarrow>
        displays (employee_rooms env w) ''total_requests''
          (CVal (column_total env ''open_requests'' posts))
      \<and> displays (employee_rooms env w) ''total_bookings''
          (CVal (column_total env ''num_room_bookings'' types))
      \<and> displays (employee_rooms env w) ''total_events''
          (CVal (column_total env ''events_count'' events)))
   \<and> (rows_returned env Q_customer_cards = Some customers \<longrightarrow>
      numeric_field ''total_billed'' customers \<longrightarrow>
        displays (employee_customer_cards env w) ''total_revenue''
          (CVal (column_total env ''total_billed'' customers)))
   \<and> (rows_returned env Q_revenue = Some months \<longrightarrow>
      numeric_field ''total_revenue'' months \<longrightarrow> numeric_field ''num_tx'' months \<longrightarrow>
        displays (employee_revenue env w) ''total_revenue''
          (CVal (column_total env ''total_revenue'' months)))
   \<and> (rows_returned env Q_room_list = Some rooms \<longrightarrow> numeric_field ''num_rooms'' rooms \<longrightarrow>
        displays (employee_room_list env w) ''total_rooms''
          (CVal (column_total env ''num_rooms'' rooms)))
   \<and> (rows_returned env Q_emp_reservations = Some days \<longrightarrow>
      numeric_field ''num_reservations'' days \<longrightarrow>
        displays (employee_reservations_page env w) ''total_reservations''
          (CVal (column_total env ''num_reservations'' days)))
   \<and> (integer_field field rows \<longrightarrow>
        column_total env field rows = PInt (\<Sum>r\<leftarrow>rows. int_of (dict_get r field (PInt 0))))"
  using displays_card_management[of env cards w] displays_employee_rooms[of env posts types events w]
    displays_customer_cards[of env customers w] displays_revenue[of env months w]
    displays_room_list[of env rooms w] displays_reservations[of env days w]
  by (simp add: column_total_def column_def comp_def)

lemma two_counts_numeric:
  "numeric_field ''num_rooms'' two_counts" "integer_field ''num_rooms'' two_counts"
  "rows_returned (const_env two_counts) Q_room_list = Some two_counts"
  "(\<Sum>r\<leftarrow>two_counts. int_of (dict_get r ''num_rooms'' (PInt 0))) = 5"
  by (simp_all add: numeric_field_def integer_field_def column_def two_counts_def dict_get_def
      rows_returned_def const_env_def)

lemma sample_revenue_returned: "rows_returned sample_env Q_revenue = Some []"
  by (simp add: rows_returned_def sample_env_def env_of_def conn_of_def sql_revenue_def
      sqlite_prepare_def sqlite_reserved_def)

theorem totals_are_field_sums_witness:
  "rows_returned (const_env two_counts) Q_room_list = Some two_counts
   \<and> numeric_field ''num_rooms'' two_counts
   \<and> integer_field ''num_rooms'' two_counts
   \<and> displays (employee_room_list (const_env two_counts) w0) ''total_rooms'' (CVal (PInt 5))
   \<and> rows_returned sample_env Q_revenue = Some []
   \<and> displays (employee_revenue sample_env w0) ''total_revenue'' (CVal (PInt 0))"
proof -
  note t = totals_are_field_sums[where env = "const_env two_counts" and rooms = two_counts
      and field = "''num_rooms''" and rows = two_counts and w = w0 and cards = "[]"
      and posts = "[]" and types = "[]" and events = "[]" and customers = "[]"
      and months = "[]" and days = "[]"]
  from t two_counts_numeric(1,3)
  have "displays (employee_room_list (const_env two_counts) w0) ''total_rooms''
      (CVal (column_total (const_env two_counts) ''num_rooms'' two_counts))"
    by blast
  moreover from t two_counts_numeric(2,4)
  have "column_total (const_env two_counts) ''num_rooms'' two_counts = PInt 5"
    by simp
  ultimately have a: "displays (employee_room_list (const_env two_counts) w0) ''total_rooms''
      (CVal (PInt 5))"
    by simp
  note s = totals_are_field_sums[where env = sample_env and months = "[]"
      and field = "''total_revenue''" and rows = "[]" and w = w0 and cards = "[]"
      and posts = "[]" and types = "[]" and events = "[]" and customers = "[]"
      and rooms = "[]" and days = "[]"]
  have e: "numeric_field ''total_revenue'' []" "numeric_field ''num_tx'' []"
    "column_total sample_env ''total_revenue'' [] = PInt 0"
    by (simp_all add: numeric_field_def integer_field_def column_total_def column_def)
  from s sample_revenue_returned e(1,2)
  have "displays (employee_revenue sample_env w0) ''total_revenue''
      (CVal (column_total sample_env ''total_revenue'' []))"
    by blast
  then have b: "displays (employee_revenue sample_env w0) ''total_revenue'' (CVal (PInt 0))"
    by (simp only: e)
  from a b two_counts_numeric sample_revenue_returned show ?thesis by blast
qed

subsection \<open>Subtotals\<close>

lemma filter_sum_le:
  "\<forall>x\<in>set xs. (0::int) \<le> f x \<Longrightarrow> (\<Sum>x\<leftarrow>filter P xs. f x) \<le> (\<Sum>x\<leftarrow>xs. f x)"
  by (induction xs) auto

lemma is_count_PInt: "is_count v \<Longrightarrow> v = PInt (int_of v) \<and> 0 \<le> int_of v"
  by (cases v) (auto simp: is_count_def)

lemma room_list_subtotal:
  assumes c: "sqlite3_connect env = Inr conn" and e: "cursor_execute conn Q_room_list = Inr rooms"
    and n: "list_all (\<lambda>r. is_count (dict_get r ''num_rooms'' (PInt 0))) rooms"
  shows "\<exists>ctx w1 a t.
      employee_room_list env w = (Inr (Rendered ''employee_room_list.html'' ctx), w1)
    \<and> map_of ctx ''available_rooms'' = Some (CVal (PInt a))
    \<and> map_of ctx ''total_rooms'' = Some (CVal (PInt t)) \<and> a \<le> t"
proof (cases "rooms = []")
  case True
  then show ?thesis using query_rows_returns[OF c e, of w]
    by (simp add: employee_room_list_def sum_field_def sum_available_def render_template_def)
next
  case False
  let ?g = "\<lambda>r. dict_get r ''num_rooms'' (PInt 0)"
  let ?n = "\<lambda>r. int_of (?g r)"
  let ?P = "\<lambda>r. py_eq (dict_get1 r ''room_status'') (PStr ''available'')"
  have cnt: "\<forall>r\<in>set rooms. ?g r = PInt (?n r) \<and> 0 \<le> ?n r"
    using n is_count_PInt by (auto simp: list_all_iff)
  then have all: "map ?g rooms = map (\<lambda>r. PInt (?n r)) rooms"
    and some: "map ?g (filter ?P rooms) = map (\<lambda>r. PInt (?n r)) (filter ?P rooms)"
    by auto
  have t: "py_sum (float_sum env) (map ?g rooms) = Inr (PInt (\<Sum>r\<leftarrow>rooms. ?n r))"
    unfolding all by (rule py_sum_ints)
  have a: "py_sum (float_sum env) (map ?g (filter ?P rooms)) =
      Inr (PInt (\<Sum>r\<leftarrow>filter ?P rooms. ?n r))"
    unfolding some by (rule py_sum_ints)
  have le: "(\<Sum>r\<leftarrow>filter ?P rooms. ?n r) \<le> (\<Sum>r\<leftarrow>rooms. ?n r)"
    using cnt by (intro filter_sum_le) auto
  from t a le False show ?thesis using query_rows_returns[OF c e, of w]
    by (simp add: employee_room_list_def sum_field_def sum_available_def render_template_def)
qed

lemma staff_subtotal:
  assumes c: "sqlite3_connect env = Inr conn" and e: "cursor_execute conn Q_staff = Inr staff"
  shows "\<exists>ctx w1 a t.
      staff_roster env w = (Inr (Rendered ''staff_roster.html'' ctx), w1)
    \<and> map_of ctx ''active_staff'' = Some (CVal (PInt a))
    \<and> map_of ctx ''total_staff'' = Some (CVal (PInt t)) \<and> a \<le> t"
  using query_rows_returns[OF c e, of w]
  by (simp add: staff_roster_def len_or_zero_def render_template_def)

text \<open>
  C10. For every row sequence whose \<^verbatim>\<open>num_rooms\<close> column holds what \<^verbatim>\<open>COUNT(*)\<close> yields
  (a non-negative \<^verbatim>\<open>int\<close>), \<^verbatim>\<open>available_rooms\<close> is at most \<^verbatim>\<open>total_rooms\<close>; for every row
  sequence of \<^verbatim>\<open>staff\<close>, \<^verbatim>\<open>active_staff\<close> is at most \<^verbatim>\<open>total_staff\<close>.
\<close>

theorem subtotals_at_most_totals:
  assumes "sqlite3_connect env = Inr conn"
  shows "(cursor_execute conn Q_room_list = Inr rooms \<longrightarrow>
          list_all (\<lambda>r. is_count (dict_get r ''num_rooms'' (PInt 0))) rooms \<longrightarrow>
          (\<exists>ctx w1 a t.
              employee_room_list env w = (Inr (Rendered ''employee_room_list.html'' ctx), w1)
            \<and> map_of ctx ''available_rooms'' = Some (CVal (PInt a))
            \<and> map_of ctx ''total_rooms'' = Some (CVal (PInt t)) \<and> a \<le> t))
       \<and> (cursor_execute conn Q_staff = Inr staff \<longrightarrow>
          (\<exists>ctx w1 a t.
              staff_roster env w = (Inr (Rendered ''staff_roster.html'' ctx), w1)
            \<and> map_of ctx ''active_staff'' = Some (CVal (PInt a))
            \<and> map_of ctx ''total_staff'' = Some (CVal (PInt t)) \<and> a \<le> t))"
  using room_list_subtotal[OF assms] staff_subtotal[OF assms] by blast

lemma two_counts_are_counts:
  "list_all (\<lambda>r. is_count (dict_get r ''num_rooms'' (PInt 0))) two_counts"
  by (simp add: two_counts_def dict_get_def is_count_def)

theorem subtotals_at_most_totals_witness:
  "sqlite3_connect (const_env two_counts) = Inr \<lparr>cursor_execute = (\<lambda>q. Inr two_counts)\<rparr>
   \<and> list_all (\<lambda>r. is_count (dict_get r ''num_rooms'' (PInt 0))) two_counts
   \<and> (\<exists>ctx w1 a t.
         employee_room_list (const_env two_counts) w0 =
           (Inr (Rendered ''employee_room_list.html'' ctx), w1)
       \<and> map_of ctx ''available_rooms'' = Some (CVal (PInt a))
       \<and> map_of ctx ''total_rooms'' = Some (CVal (PInt t)) \<and> a \<le> t)
   \<and> (\<exists>ctx w1 a t.
         staff_roster (const_env two_counts) w0 = (Inr (Rendered ''staff_roster.html'' ctx), w1)
       \<and> map_of ctx ''active_staff'' = Some (CVal (PInt a))
       \<and> map_of ctx ''total_staff'' = Some (CVal (PInt t)) \<and> a \<le> t)"
proof -
  have c: "sqlite3_connect (const_env two_counts) = Inr \<lparr>cursor_execute = (\<lambda>q. Inr two_counts)\<rparr>"
    by (simp add: const_env_def)
  from subtotals_at_most_totals[OF c, where rooms = two_counts and staff = two_counts and w = w0]
    c two_counts_are_counts
  show ?thesis by simp
qed

subsection \<open>Reservations per day\<close>

lemma per_day_keys:
  "map fst (reservations_per_day fns db) = map fst (group_by (check_in_day fns) (reservation db))"
  by (simp add: reservations_per_day_def case_prod_unfold comp_def)

lemma per_day_count:
  assumes "(d, n) \<in> set (reservations_per_day fns db)"
  shows "n = length (filter (\<lambda>r. check_in_day fns r = d) (reservation db)) \<and> 0 < n"
proof -
  from assms obtain g
    where g: "(d, g) \<in> set (group_by (check_in_day fns) (reservation db))" "n = length g"
    by (auto simp: reservations_per_day_def)
  from group_by_group[OF g(1)] g(2) show ?thesis by auto
qed

lemma reservation_statements_prepare:
  "sql_my_reservations fns db = Inr (map reservations_row (my_reservations_rows fns db))"
  "sql_emp_reservations fns db = Inr (map reservations_row (emp_reservations_rows fns db))"
  by (simp_all add: sql_my_reservations_def sql_emp_reservations_def sqlite_prepare_def
      sqlite_reserved_def)

lemma reservations_row_fields:
  "dict_get (reservations_row g) ''num_reservations'' (PInt 0) = PInt (int (snd g))"
  "reservations_row g ''day'' = Some (py_text (fst g))"
  "reservations_row g ''num_reservations'' = Some (PInt (int (snd g)))"
  by (simp_all add: reservations_row_def dict_get_def)

text \<open>What the two views show when their statements run on a database.\<close>

lemma my_reservations_page:
  assumes "sqlite3_connect env = Inr conn"
    and "cursor_execute conn Q_my_reservations = sql_my_reservations fns db"
  shows "displays (my_reservations env w) ''reservations''
           (CRows (map reservations_row (my_reservations_rows fns db)))"
  using query_rows_returns[OF assms(1), of Q_my_reservations _ w] assms(2)
  by (simp add: reservation_statements_prepare my_reservations_def displays_def
      render_template_def Let_def)

lemma emp_reservations_page:
  assumes "sqlite3_connect env = Inr conn"
    and "cursor_execute conn Q_emp_reservations = sql_emp_reservations fns db"
  shows "displays (employee_reservations_page env w) ''reservations''
           (CRows (map reservations_row (emp_reservations_rows fns db)))"
proof -
  let ?rows = "map reservations_row (emp_reservations_rows fns db)"
  have q: "query_rows env Q_emp_reservations w =
      (Inr ?rows, conn_close (w\<lparr>opened := Suc (opened w)\<rparr>))"
    using query_rows_returns[OF assms(1), of Q_emp_reservations ?rows w] assms(2)
    by (simp add: reservation_statements_prepare)
  have s: "sum_field env ''num_reservations'' ?rows =
      Inr (PInt (\<Sum>g\<leftarrow>emp_reservations_rows fns db. int (snd g)))"
    using py_sum_ints[of "float_sum env" "\<lambda>g. int (snd g)" "emp_reservations_rows fns db"]
    by (simp add: sum_field_def comp_def reservations_row_fields)
  obtain a where a: "average_per_day env (PInt (\<Sum>g\<leftarrow>emp_reservations_rows fns db. int (snd g)))
      (len_or_zero ?rows) = Inr a"
    by (cases "emp_reservations_rows fns db = []")
      (auto simp: average_per_day_def len_or_zero_def py_truediv_def)
  show ?thesis using q s a
    by (simp add: employee_reservations_page_def displays_def render_template_def Let_def)
qed

text \<open>
  C9. \<^verbatim>\<open>/my_reservations\<close> and \<^verbatim>\<open>/employee/reservations\<close> both show rows of a day and the
  number of reservations that check in on it. \<^verbatim>\<open>/employee/reservations\<close> shows one row for
  every check-in day of the table, in ascending order, and leaves no day out.
  \<^verbatim>\<open>/my_reservations\<close> shows at most 10 rows: the first 10 rows of the other report read
  from its end, so every day it leaves out is earlier than every day it shows.
\<close>

theorem reservation_windows:
  assumes "sqlite3_connect env = Inr conn"
    and "cursor_execute conn Q_my_reservations = sql_my_reservations fns db"
    and "cursor_execute conn Q_emp_reservations = sql_emp_reservations fns db"
  shows "displays (my_reservations env w) ''reservations''
           (CRows (map reservations_row (my_reservations_rows fns db)))
   \<and> displays (employee_reservations_page env w) ''reservations''
           (CRows (map reservations_row (emp_reservations_rows fns db)))
   \<and> (\<forall>g. reservations_row g ''day'' = Some (py_text (fst g))
          \<and> reservations_row g ''num_reservations'' = Some (PInt (int (snd g))))
   \<and> length (my_reservations_rows fns db) \<le> 10
   \<and> my_reservations_rows fns db = take 10 (rev (emp_reservations_rows fns db))
   \<and> (\<forall>x \<in> set (my_reservations_rows fns db). \<forall>y \<in> set (emp_reservations_rows fns db).
        y \<notin> set (my_reservations_rows fns db) \<longrightarrow> fst y < fst x)
   \<and> sorted (map fst (emp_reservations_rows fns db))
   \<and> distinct (map fst (emp_reservations_rows fns db))
   \<and> fst ` set (emp_reservations_rows fns db) =
        (\<lambda>r. sql_date fns (r_startDateTime r)) ` set (reservation db)
   \<and> (\<forall>(d, n) \<in> set (emp_reservations_rows fns db).
        n = length (filter (\<lambda>r. sql_date fns (r_startDateTime r) = d) (reservation db)))"
proof -
  let ?emp = "emp_reservations_rows fns db" and ?my = "my_reservations_rows fns db"
  have my: "?my = take 10 (rev ?emp)"
    by (simp add: my_reservations_rows_def emp_reservations_rows_def order_by_desc_def
        order_by_def)
  have srt: "sorted (map fst ?emp)"
    by (simp add: emp_reservations_rows_def order_by_def)
  have dst: "distinct (map fst ?emp)"
    by (simp add: emp_reservations_rows_def order_by_def sort_key_distinct_map per_day_keys
        group_by_distinct)
  have "fst ` set ?emp = check_in_day fns ` set (reservation db)"
    using group_by_keys[of "check_in_day fns" "reservation db"] per_day_keys[of fns db]
    by (metis emp_reservations_rows_def order_by_def set_map set_sort)
  then have keys: "fst ` set ?emp = (\<lambda>r. sql_date fns (r_startDateTime r)) ` set (reservation db)"
    by (simp add: check_in_day_def[abs_def])
  have "\<forall>(d, n) \<in> set ?emp.
      n = length (filter (\<lambda>r. check_in_day fns r = d) (reservation db))"
    using per_day_count by (auto simp: emp_reservations_rows_def order_by_def)
  then have cnt: "\<forall>(d, n) \<in> set ?emp.
      n = length (filter (\<lambda>r. sql_date fns (r_startDateTime r) = d) (reservation db))"
    by (simp add: check_in_day_def)
  have top: "\<forall>x \<in> set ?my. \<forall>y \<in> set ?emp. y \<notin> set ?my \<longrightarrow> fst y < fst x"
    unfolding my using top_of_descending[OF srt dst] by blast
  have len: "length ?my \<le> 10" by (simp add: my_reservations_rows_def)
  have col: "\<forall>g. reservations_row g ''day'' = Some (py_text (fst g))
          \<and> reservations_row g ''num_reservations'' = Some (PInt (int (snd g)))"
    by (simp add: reservations_row_fields)
  from my_reservations_page[OF assms(1,2), of w] emp_reservations_page[OF assms(1,3), of w]
    col len my top srt dst keys cnt
  show ?thesis by blast
qed

subsection \<open>The window of ten days on a month of reservations\<close>

lemma march_days:
  "map (check_in_day march_times) (reservation march_db) =
     [Some ''2024-03-01'', Some ''2024-03-02'', Some ''2024-03-03'', Some ''2024-03-04'',
      Some ''2024-03-05'', Some ''2024-03-06'', Some ''2024-03-07'', Some ''2024-03-08'',
      Some ''2024-03-09'', Some ''2024-03-10'', Some ''2024-03-11'', Some ''2024-03-12'']"
  by code_simp

lemma march_per_day:
  "reservations_per_day march_times march_db =
     [(Some ''2024-03-01'', 1), (Some ''2024-03-02'', 1), (Some ''2024-03-03'', 1),
      (Some ''2024-03-04'', 1), (Some ''2024-03-05'', 1), (Some ''2024-03-06'', 1),
      (Some ''2024-03-07'', 1), (Some ''2024-03-08'', 1), (Some ''2024-03-09'', 1),
      (Some ''2024-03-10'', 1), (Some ''2024-03-11'', 1), (Some ''2024-03-12'', 1)]"
proof -
  have "reservations_per_day march_times march_db =
      map (\<lambda>(k, g). (k, length g))
        (group_by id (map (check_in_day march_times) (reservation march_db)))"
    unfolding reservations_per_day_def by (rule group_by_counts_of_keys)
  then show ?thesis unfolding march_days by simp
qed

lemma march_top_ten:
  "take 10 (rev (sort_key fst
     [(Some ''2024-03-01'', 1::nat), (Some ''2024-03-02'', 1), (Some ''2024-03-03'', 1),
      (Some ''2024-03-04'', 1), (Some ''2024-03-05'', 1), (Some ''2024-03-06'', 1),
      (Some ''2024-03-07'', 1), (Some ''2024-03-08'', 1), (Some ''2024-03-09'', 1),
      (Some ''2024-03-10'', 1), (Some ''2024-03-11'', 1), (Some ''2024-03-12'', 1)])) =
     [(Some ''2024-03-12'', 1), (Some ''2024-03-11'', 1), (Some ''2024-03-10'', 1),
      (Some ''2024-03-09'', 1), (Some ''2024-03-08'', 1), (Some ''2024-03-07'', 1),
      (Some ''2024-03-06'', 1), (Some ''2024-03-05'', 1), (Some ''2024-03-04'', 1),
      (Some ''2024-03-03'', 1)]"
  by code_simp

lemma march_window:
  "my_reservations_rows march_times march_db =
     [(Some ''2024-03-12'', 1), (Some ''2024-03-11'', 1), (Some ''2024-03-10'', 1),
      (Some ''2024-03-09'', 1), (Some ''2024-03-08'', 1), (Some ''2024-03-07'', 1),
      (Some ''2024-03-06'', 1), (Some ''2024-03-05'', 1), (Some ''2024-03-04'', 1),
      (Some ''2024-03-03'', 1)]"
  by (simp only: my_reservations_rows_def order_by_desc_def march_per_day march_top_ten)

lemma march_statements:
  "sqlite3_connect (env_of march_times march_db) = Inr (conn_of march_times march_db)"
  "cursor_execute (conn_of march_times march_db) Q_my_reservations =
     sql_my_reservations march_times march_db"
  "cursor_execute (conn_of march_times march_db) Q_emp_reservations =
     sql_emp_reservations march_times march_db"
  by (simp_all add: env_of_def conn_of_def)

text \<open>
  Twelve check-in days: \<^verbatim>\<open>/my_reservations\<close> shows the ten latest, 12 March down to 3 March,
  and leaves out the first two days of the month, which \<^verbatim>\<open>/employee/reservations\<close> shows.
\<close>

theorem reservation_windows_witness:
  "sqlite3_connect (env_of march_times march_db) = Inr (conn_of march_times march_db)
   \<and> cursor_execute (conn_of march_times march_db) Q_my_reservations =
       sql_my_reservations march_times march_db
   \<and> cursor_execute (conn_of march_times march_db) Q_emp_reservations =
       sql_emp_reservations march_times march_db
   \<and> displays (my_reservations (env_of march_times march_db) w0) ''reservations''
       (CRows (map reservations_row
          [(Some ''2024-03-12'', 1), (Some ''2024-03-11'', 1), (Some ''2024-03-10'', 1),
           (Some ''2024-03-09'', 1), (Some ''2024-03-08'', 1), (Some ''2024-03-07'', 1),
           (Some ''2024-03-06'', 1), (Some ''2024-03-05'', 1), (Some ''2024-03-04'', 1),
           (Some ''2024-03-03'', 1)]))
   \<and> length (emp_reservations_rows march_times march_db) = 12"
proof -
  have n: "length (emp_reservations_rows march_times march_db) = 12"
    by (simp add: emp_reservations_rows_def order_by_def march_per_day)
  from reservation_windows[OF march_statements, of w0]
  have "displays (my_reservations (env_of march_times march_db) w0) ''reservations''
      (CRows (map reservations_row (my_reservations_rows march_times march_db)))"
    by (rule conjunct1)
  then have d: "displays (my_reservations (env_of march_times march_db) w0) ''reservations''
       (CRows (map reservations_row
          [(Some ''2024-03-12'', 1), (Some ''2024-03-11'', 1), (Some ''2024-03-10'', 1),
           (Some ''2024-03-09'', 1), (Some ''2024-03-08'', 1), (Some ''2024-03-07'', 1),
           (Some ''2024-03-06'', 1), (Some ''2024-03-05'', 1), (Some ''2024-03-04'', 1),
           (Some ''2024-03-03'', 1)]))"
    by (simp only: march_window)
  from march_statements d n show ?thesis by blast
qed

subsection \<open>Rooms never reserved\<close>

lemma reserved_iff:
  "reserved db rm \<longleftrightarrow> (\<exists>rr\<in>set (reservation_room db). sql_eq (rr_roomId rr) (rm_roomId rm))"
  by (simp add: reserved_def list_ex_iff)

lemma never_reserved_where_rows:
  "never_reserved_where db =
     concat (map (\<lambda>(b, rm). if reserved db rm then [] else [(b, rm, None)])
       [(b, rm). b \<leftarrow> building db, rm \<leftarrow> room db, sql_eq (rm_buildingId rm) (b_buildingId b)])"
proof -
  let ?W = "\<lambda>(b :: building_row, rm :: room_row, rr). (case rr of None \<Rightarrow> True | Some x \<Rightarrow> rr_roomId x = None)"
  have one: "filter ?W
        (case filter (\<lambda>rr. sql_eq (rr_roomId rr) (rm_roomId rm)) (reservation_room db) of
           [] \<Rightarrow> [(b, rm, None)]
         | matches \<Rightarrow> map (\<lambda>rr. (b, rm, Some rr)) matches)
      = (if reserved db rm then [] else [(b, rm, None)])" for b rm
  proof (cases "filter (\<lambda>rr. sql_eq (rr_roomId rr) (rm_roomId rm)) (reservation_room db)")
    case Nil
    then have "\<not> reserved db rm" by (auto simp: reserved_iff filter_empty_conv)
    with Nil show ?thesis by simp
  next
    case (Cons m ms)
    then have "m \<in> set (filter (\<lambda>rr. sql_eq (rr_roomId rr) (rm_roomId rm)) (reservation_room db))"
      by simp
    then have r: "reserved db rm" by (auto simp: reserved_iff)
    have "\<forall>x\<in>set (filter (\<lambda>rr. sql_eq (rr_roomId rr) (rm_roomId rm)) (reservation_room db)).
        sql_eq (rr_roomId x) (rm_roomId rm)" by simp
    then have "\<forall>x\<in>set (m # ms). rr_roomId x \<noteq> None"
      unfolding Cons by (auto simp: sql_eq_def)
    then have "filter ?W (map (\<lambda>rr. (b, rm, Some rr)) (m # ms)) = []"
      by (auto simp: filter_empty_conv)
    with Cons r show ?thesis by simp
  qed
  show ?thesis
    unfolding never_reserved_where_def never_reserved_from_def filter_concat map_map comp_def
    by (rule arg_cong[where f = concat], rule map_cong[OF refl]) (auto simp: one)
qed

lemma has_building_iff:
  "has_building db rm \<longleftrightarrow> (\<exists>b\<in>set (building db). sql_eq (rm_buildingId rm) (b_buildingId b))"
  by (simp add: has_building_def list_ex_iff)

lemma never_reserved_rows_set:
  "set (never_reserved_rows db) =
     {(b, rm, None) | b rm. b \<in> set (building db) \<and> rm \<in> set (room db)
        \<and> sql_eq (rm_buildingId rm) (b_buildingId b) \<and> \<not> reserved db rm}"
  by (auto simp: never_reserved_rows_def order_by_def never_reserved_where_rows
      split: if_splits) blast

lemma never_reserved_rooms_set:
  "set (never_reserved_rooms db) =
     {rm \<in> set (room db). has_building db rm \<and> \<not> reserved db rm}"
  unfolding never_reserved_rooms_def set_map never_reserved_rows_set has_building_iff
  by force

lemma never_reserved_prepare:
  "sql_never_reserved db = Inr (map never_reserved_row (never_reserved_rows db))"
  by (simp add: sql_never_reserved_def sqlite_prepare_def sqlite_reserved_def)

lemma never_reserved_row_fields:
  "never_reserved_row j ''buildingName'' = Some (py_text (b_buildingName (fst j)))"
  "never_reserved_row j ''roomNumber'' = Some (py_text (rm_roomNumber (fst (snd j))))"
  by (simp_all add: never_reserved_row_def)

lemma never_reserved_page:
  assumes "sqlite3_connect env = Inr conn"
    and "cursor_execute conn Q_never_reserved = sql_never_reserved db"
  shows "displays (rooms_never_reserved env w) ''rooms''
           (CRows (map never_reserved_row (never_reserved_rows db)))
       \<and> displays (rooms_never_reserved env w) ''total_unused''
           (CVal (PInt (int (length (never_reserved_rows db)))))"
  using query_rows_returns[OF assms(1), of Q_never_reserved _ w] assms(2)
  by (simp add: never_reserved_prepare rooms_never_reserved_def displays_def
      render_template_def len_or_zero_def Let_def)

lemma attic_rows: "never_reserved_rows attic_db = []"
  by (simp add: never_reserved_rows_def never_reserved_where_def never_reserved_from_def
      attic_db_def sample_db_def room1_def attic_def sql_eq_def order_by_def)

text \<open>
  C5, as the claim states it, fails on a room that references no building: the attic of
  the sample hotel is a room, no row of \<^verbatim>\<open>reservation_room\<close> references it, and the report
  does not list it, because Query 9 starts from \<^verbatim>\<open>building JOIN room\<close>.
\<close>

theorem unlisted_attic_counterexample:
  "attic \<in> set (room attic_db) \<and> \<not> reserved attic_db attic
   \<and> attic \<notin> set (never_reserved_rooms attic_db)
   \<and> fst (rooms_never_reserved (env_of sample_times attic_db) w0) =
       Inr (Rendered ''rooms_never_reserved.html''
         [(''rooms'', CRows []), (''total_unused'', CVal (PInt 0))])"
proof -
  have r: "attic \<in> set (room attic_db)" "\<not> reserved attic_db attic"
    by (simp_all add: attic_db_def sample_db_def reserved_def attic_def sql_eq_def)
  have n: "attic \<notin> set (never_reserved_rooms attic_db)"
    by (simp add: never_reserved_rooms_def attic_rows)
  have c: "sqlite3_connect (env_of sample_times attic_db) = Inr (conn_of sample_times attic_db)"
    "cursor_execute (conn_of sample_times attic_db) Q_never_reserved = Inr []"
    by (simp_all add: env_of_def conn_of_def never_reserved_prepare attic_rows)
  have p: "fst (rooms_never_reserved (env_of sample_times attic_db) w0) =
       Inr (Rendered ''rooms_never_reserved.html''
         [(''rooms'', CRows []), (''total_unused'', CVal (PInt 0))])"
    using query_rows_returns[OF c, of w0]
    by (simp add: rooms_never_reserved_def render_template_def len_or_zero_def)
  from r n p show ?thesis by blast
qed

text \<open>
  C5, amended. \<^verbatim>\<open>/employee/rooms_never_reserved\<close> shows one row, with building name and
  room number, for every pair of a building and a room of that building that no row of
  \<^verbatim>\<open>reservation_room\<close> references, and nothing else: a room is in the result if and only if
  it references a row of \<^verbatim>\<open>building\<close> and no \<^verbatim>\<open>reservation_room\<close> row references its \<^verbatim>\<open>roomId\<close>.
\<close>

theorem never_reserved_rooms_listed:
  assumes "sqlite3_connect env = Inr conn"
    and "cursor_execute conn Q_never_reserved = sql_never_reserved db"
  shows "displays (rooms_never_reserved env w) ''rooms''
           (CRows (map never_reserved_row (never_reserved_rows db)))
   \<and> displays (rooms_never_reserved env w) ''total_unused''
           (CVal (PInt (int (length (never_reserved_rows db)))))
   \<and> (\<forall>j. never_reserved_row j ''buildingName'' = Some (py_text (b_buildingName (fst j)))
          \<and> never_reserved_row j ''roomNumber'' = Some (py_text (rm_roomNumber (fst (snd j)))))
   \<and> set (never_reserved_rows db) =
        {(b, rm, None) | b rm. b \<in> set (building db) \<and> rm \<in> set (room db)
           \<and> sql_eq (rm_buildingId rm) (b_buildingId b)
           \<and> \<not> (\<exists>rr\<in>set (reservation_room db). sql_eq (rr_roomId rr) (rm_roomId rm))}
   \<and> (\<forall>rm\<in>set (room db). rm \<in> set (never_reserved_rooms db) \<longleftrightarrow>
          (\<exists>b\<in>set (building db). sql_eq (rm_buildingId rm) (b_buildingId b))
        \<and> \<not> (\<exists>rr\<in>set (reservation_room db). sql_eq (rr_roomId rr) (rm_roomId rm)))"
proof -
  have s: "set (never_reserved_rows db) =
        {(b, rm, None) | b rm. b \<in> set (building db) \<and> rm \<in> set (room db)
           \<and> sql_eq (rm_buildingId rm) (b_buildingId b)
           \<and> \<not> (\<exists>rr\<in>set (reservation_room db). sql_eq (rr_roomId rr) (rm_roomId rm))}"
    unfolding never_reserved_rows_set reserved_iff ..
  have m: "\<forall>rm\<in>set (room db). rm \<in> set (never_reserved_rooms db) \<longleftrightarrow>
          (\<exists>b\<in>set (building db). sql_eq (rm_buildingId rm) (b_buildingId b))
        \<and> \<not> (\<exists>rr\<in>set (reservation_room db). sql_eq (rr_roomId rr) (rm_roomId rm))"
    unfolding never_reserved_rooms_set has_building_iff reserved_iff by simp
  from never_reserved_page[OF assms, of w] s m show ?thesis
    by (simp add: never_reserved_row_fields)
qed

lemma sample_never_reserved:
  "never_reserved_rows sample_db =
     [(\<lparr>b_buildingId = Some 2, b_buildingName = Some ''West''\<rparr>, room2, None)]"
  by (simp add: never_reserved_rows_def never_reserved_where_def
      never_reserved_from_def sample_db_def room1_def room2_def sql_eq_def order_by_def)

lemma sample_room_facts:
  "has_building sample_db room2" "\<not> reserved sample_db room2" "reserved sample_db room1"
  "sqlite3_connect sample_env = Inr sample_conn"
  "cursor_execute sample_conn Q_never_reserved = sql_never_reserved sample_db"
  by (simp_all add: has_building_def reserved_def sample_db_def room1_def room2_def sql_eq_def
      sample_env_def env_of_def sample_conn_def conn_of_def)

theorem never_reserved_rooms_listed_witness:
  "sqlite3_connect sample_env = Inr sample_conn
   \<and> cursor_execute sample_conn Q_never_reserved = sql_never_reserved sample_db
   \<and> displays (rooms_never_reserved sample_env w0) ''rooms''
       (CRows [never_reserved_row
          (\<lparr>b_buildingId = Some 2, b_buildingName = Some ''West''\<rparr>, room2, None)])
   \<and> displays (rooms_never_reserved sample_env w0) ''total_unused'' (CVal (PInt 1))
   \<and> has_building sample_db room2 \<and> \<not> reserved sample_db room2 \<and> reserved sample_db room1"
proof -
  from never_reserved_rooms_listed[OF sample_room_facts(4,5), of w0]
  have "displays (rooms_never_reserved sample_env w0) ''rooms''
           (CRows (map never_reserved_row (never_reserved_rows sample_db)))"
    and "displays (rooms_never_reserved sample_env w0) ''total_unused''
           (CVal (PInt (int (length (never_reserved_rows sample_db)))))"
    by blast+
  then show ?thesis using sample_room_facts by (simp add: sample_never_reserved)
qed

subsection \<open>Room counts by building and status\<close>

lemma room_list_prepare: "sql_room_list db = Inr (room_list_select db)"
  by (simp add: sql_room_list_def sqlite_prepare_def sqlite_reserved_def)

lemma room_list_counts_total:
  "(\<Sum>g\<leftarrow>room_list_groups db. snd (snd g)) = length (room_list_from db)"
  using group_by_total[of "\<lambda>(b, rm, rs). (b_buildingName b, rs_status rs)" "room_list_from db"]
  by (simp add: room_list_groups_def comp_def case_prod_unfold)

lemma room_list_status:
  assumes "g \<in> set (room_list_groups db)"
  shows "\<exists>rs\<in>set (room_status db). fst (snd g) = rs_status rs"
proof -
  from assms obtain k js where kj: "(k, js) \<in> set (group_by (\<lambda>(b, rm, rs). (b_buildingName b, rs_status rs)) (room_list_from db))"
    "g = (fst k, snd k, length js)"
    by (auto simp: room_list_groups_def)
  from kj(1) have "fst (k, js) \<in> fst `
      set (group_by (\<lambda>(b, rm, rs). (b_buildingName b, rs_status rs)) (room_list_from db))"
    by (rule imageI)
  then have "k \<in> (\<lambda>(b, rm, rs). (b_buildingName b, rs_status rs)) ` set (room_list_from db)"
    unfolding group_by_keys by simp
  then show ?thesis using kj(2) by (auto simp: room_list_from_def)
qed

lemma two_rooms_join_length:
  assumes "room_status db = [rs]" "room db = [rm1, rm2]"
    and "sql_eq (rs_roomStatusId rs) (rm_roomStatusId rm1)"
    and "sql_eq (rs_roomStatusId rs) (rm_roomStatusId rm2)"
  shows "length (room_list_from db) =
      length (filter (\<lambda>b. sql_eq (rm_buildingId rm1) (b_buildingId b)) (building db))
    + length (filter (\<lambda>b. sql_eq (rm_buildingId rm2) (b_buildingId b)) (building db))"
proof -
  have "length (concat (map (\<lambda>b.
            (if sql_eq (rm_buildingId rm1) (b_buildingId b) then [(b, rm1, rs)] else [])
          @ (if sql_eq (rm_buildingId rm2) (b_buildingId b) then [(b, rm2, rs)] else [])) bs)) =
      length (filter (\<lambda>b. sql_eq (rm_buildingId rm1) (b_buildingId b)) bs)
    + length (filter (\<lambda>b. sql_eq (rm_buildingId rm2) (b_buildingId b)) bs)" for bs :: "building_row list"
    by (induction bs) auto
  moreover have "room_list_from db = concat (map (\<lambda>b.
            (if sql_eq (rm_buildingId rm1) (b_buildingId b) then [(b, rm1, rs)] else [])
          @ (if sql_eq (rm_buildingId rm2) (b_buildingId b) then [(b, rm2, rs)] else [])) (building db))"
    using assms by (simp add: room_list_from_def cong: if_cong)
  ultimately show ?thesis by simp
qed

lemma room_list_row_fields:
  "dict_get (room_list_row g) ''num_rooms'' (PInt 0) = PInt (int (snd (snd g)))"
  "py_eq (dict_get1 (room_list_row g) ''room_status'') (PStr ''available'') \<longleftrightarrow>
     fst (snd g) = Some ''available''"
  by (auto simp: room_list_row_def dict_get_def dict_get1_def py_text_def split: option.splits)

text \<open>
  C8. In a database whose \<^verbatim>\<open>room_status\<close> table holds one row, with status
  \<^verbatim>\<open>'available'\<close>, and whose \<^verbatim>\<open>room\<close> table holds exactly two rooms that reference it, each
  in one building, \<^verbatim>\<open>/employee/room_list\<close> renders its page with \<^verbatim>\<open>available_rooms = 2\<close>
  (whether the two rooms share a building or not).
\<close>

theorem two_available_rooms:
  assumes c: "sqlite3_connect env = Inr conn"
    and e: "cursor_execute conn Q_room_list = sql_room_list db"
    and s: "room_status db = [rs]" "rs_status rs = Some ''available''"
    and r: "room db = [rm1, rm2]"
      "sql_eq (rs_roomStatusId rs) (rm_roomStatusId rm1)"
      "sql_eq (rs_roomStatusId rs) (rm_roomStatusId rm2)"
    and b: "in_one_building db rm1" "in_one_building db rm2"
  shows "\<exists>ctx w1. employee_room_list env w = (Inr (Rendered ''employee_room_list.html'' ctx), w1)
           \<and> map_of ctx ''available_rooms'' = Some (CVal (PInt 2))"
proof -
  let ?sorted = "order_by (\<lambda>g. (fst g, - int (snd (snd g)))) (room_list_groups db)"
  let ?rooms = "room_list_select db"
  have len: "length (room_list_from db) = 2"
    using two_rooms_join_length[OF s(1) r] b by (simp add: in_one_building_def)
  have total: "(\<Sum>g\<leftarrow>?sorted. int (snd (snd g))) = 2"
  proof -
    have "(\<Sum>g\<leftarrow>?sorted. int (snd (snd g))) = (\<Sum>g\<leftarrow>room_list_groups db. int (snd (snd g)))"
      by (simp add: order_by_def sort_key_sum)
    also have "\<dots> = int (\<Sum>g\<leftarrow>room_list_groups db. snd (snd g))"
      by (rule int_sum_list)
    finally show ?thesis using room_list_counts_total[of db] len by simp
  qed
  have avail: "\<forall>g\<in>set ?sorted. fst (snd g) = Some ''available''"
    using room_list_status[of _ db] s by (auto simp: order_by_def)
  have ne: "?rooms \<noteq> []"
    using total by (auto simp: room_list_select_def)
  have all: "filter (\<lambda>r. py_eq (dict_get1 r ''room_status'') (PStr ''available'')) ?rooms = ?rooms"
    using avail by (simp add: room_list_select_def filter_map comp_def room_list_row_fields)
  have sum: "py_sum (float_sum env) (map (\<lambda>r. dict_get r ''num_rooms'' (PInt 0)) ?rooms) = Inr (PInt 2)"
    using py_sum_ints[of "float_sum env" "\<lambda>g. int (snd (snd g))" ?sorted] total
    by (simp add: room_list_select_def comp_def room_list_row_fields)
  have q: "query_rows env Q_room_list w = (Inr ?rooms, conn_close (w\<lparr>opened := Suc (opened w)\<rparr>))"
    using query_rows_returns[OF c, of Q_room_list ?rooms w] e by (simp add: room_list_prepare)
  show ?thesis using q ne all sum
    by (simp add: employee_room_list_def sum_field_def sum_available_def render_template_def)
qed

lemma sample_room_list:
  "cursor_execute sample_conn Q_room_list = sql_room_list sample_db"
  "room_status sample_db = [available_status]" "rs_status available_status = Some ''available''"
  "room sample_db = [room1, room2]"
  "sql_eq (rs_roomStatusId available_status) (rm_roomStatusId room1)"
  "sql_eq (rs_roomStatusId available_status) (rm_roomStatusId room2)"
  "in_one_building sample_db room1" "in_one_building sample_db room2"
  by (simp_all add: sample_conn_def conn_of_def sample_db_def available_status_def room1_def
      room2_def sql_eq_def in_one_building_def)

theorem two_available_rooms_witness:
  "sqlite3_connect sample_env = Inr sample_conn
   \<and> cursor_execute sample_conn Q_room_list = sql_room_list sample_db
   \<and> room_status sample_db = [available_status] \<and> rs_status available_status = Some ''available''
   \<and> room sample_db = [room1, room2]
   \<and> sql_eq (rs_roomStatusId available_status) (rm_roomStatusId room1)
   \<and> sql_eq (rs_roomStatusId available_status) (rm_roomStatusId room2)
   \<and> in_one_building sample_db room1 \<and> in_one_building sample_db room2
   \<and> (\<exists>ctx w1. employee_room_list sample_env w0 =
          (Inr (Rendered ''employee_room_list.html'' ctx), w1)
        \<and> map_of ctx ''available_rooms'' = Some (CVal (PInt 2)))"
proof -
  have c: "sqlite3_connect sample_env = Inr sample_conn"
    by (simp add: sample_env_def env_of_def sample_conn_def)
  from two_available_rooms[OF c sample_room_list, of w0] c sample_room_list
  show ?thesis by simp
qed

text \<open>
  The hypothesis of the subtotal property holds of every result of Query 2: \<^verbatim>\<open>num_rooms\<close> is
  a count.
\<close>

lemma room_list_rows_are_counts:
  "list_all (\<lambda>r. is_count (dict_get r ''num_rooms'' (PInt 0))) (room_list_select db)"
  by (simp add: room_list_select_def list_all_iff room_list_row_fields is_count_def)

subsection \<open>Average stay by room type\<close>

lemma nights_dated:
  "nights fns j = (if dated fns j then Some (days_between fns j) else None)"
  by (auto simp: nights_def dated_def days_between_def julian_def sql_minus_def Let_def
      split: option.splits)

lemma non_null_nights:
  "non_null (map (nights fns) js) = map (days_between fns) (filter (dated fns) js)"
  by (induction js) (auto simp: non_null_def nights_dated)

text \<open>\<^verbatim>\<open>AVG\<close> of the differences is the average stay of the dated rows.\<close>

lemma sql_avg_stay: "sql_avg fns (map (nights fns) js) = average_stay fns js"
  by (simp add: sql_avg_def average_stay_def non_null_nights Let_def)

lemma room_types_row_of_type:
  "row \<in> set (room_types_rows fns db) \<Longrightarrow> fst row = t \<Longrightarrow>
   row = (t, average_stay fns (bookings_of db t), length (bookings_of db t))
   \<and> bookings_of db t \<noteq> []"
  by (auto simp: room_types_rows_def order_by_desc_def room_types_groups_def bookings_of_def
      sql_avg_stay dest!: group_by_group)

lemma room_types_row_exists:
  assumes "bookings_of db t \<noteq> []"
  shows "(t, average_stay fns (bookings_of db t), length (bookings_of db t))
           \<in> set (room_types_rows fns db)"
proof -
  from assms obtain j where j: "j \<in> set (room_types_from db)" "booking_type j = t"
    by (auto simp: bookings_of_def filter_empty_conv)
  from group_by_member[OF j(1), of booking_type] j(2)
  have "(t, bookings_of db t) \<in> set (group_by booking_type (room_types_from db))"
    by (simp add: bookings_of_def)
  then show ?thesis
    by (force simp: room_types_rows_def order_by_desc_def room_types_groups_def sql_avg_stay)
qed

lemma room_types_distinct: "distinct (map fst (room_types_rows fns db))"
proof -
  have "map fst (room_types_groups fns db) = map fst (group_by booking_type (room_types_from db))"
    by (simp add: room_types_groups_def case_prod_unfold comp_def)
  then show ?thesis
    by (simp add: room_types_rows_def order_by_desc_def distinct_rev rev_map[symmetric]
        sort_key_distinct_map group_by_distinct del: rev_map)
qed

lemma rows_of_type:
  "filter (\<lambda>row. fst row = t) (room_types_rows fns db) =
     (if bookings_of db t = [] then []
      else [(t, average_stay fns (bookings_of db t), length (bookings_of db t))])"
proof (cases "bookings_of db t = []")
  case True
  then show ?thesis
    using room_types_row_of_type[of _ fns db t] by (auto simp: filter_empty_conv)
next
  case False
  from filter_unique_key[OF room_types_distinct room_types_row_exists[OF False]] False
  show ?thesis by simp
qed

lemma room_types_prepare:
  "sql_room_types fns db = Inr (map room_types_row (room_types_rows fns db))"
  by (simp add: sql_room_types_def sqlite_prepare_def sqlite_reserved_def)

lemma room_types_row_fields:
  "room_types_row g ''roomType'' = Some (py_text (fst g))"
  "room_types_row g ''avg_nights'' = Some (py_float (fst (snd g)))"
  "room_types_row g ''num_room_bookings'' = Some (PInt (int (snd (snd g))))"
  by (simp_all add: room_types_row_def)

lemma room_types_numeric:
  "numeric_field ''num_room_bookings'' (map room_types_row rows)"
  by (simp add: numeric_field_def column_def list_all_iff dict_get_def room_types_row_fields)

lemma room_types_page:
  assumes "sqlite3_connect env = Inr conn"
    and "cursor_execute conn Q_room_types = sql_room_types fns db"
    and "rows_returned env Q_forum_posts = Some posts"
    and "rows_returned env Q_meeting_events = Some events"
    and "numeric_field ''open_requests'' posts" and "numeric_field ''events_count'' events"
  shows "displays (employee_rooms env w) ''room_types''
           (CRows (map room_types_row (room_types_rows fns db)))"
proof -
  have "rows_returned env Q_room_types = Some (map room_types_row (room_types_rows fns db))"
    using assms(1,2) by (simp add: rows_returned_def room_types_prepare)
  from displays_employee_rooms[OF assms(3) this assms(4,5) room_types_numeric assms(6), of w]
  show ?thesis by simp
qed

lemma open_stay_rows: "room_types_rows sample_times open_stay_db = [(Some ''single'', None, 1)]"
  by (simp add: room_types_rows_def room_types_groups_def room_types_from_def open_stay_db_def
      sample_db_def room1_def room2_def sql_eq_def order_by_desc_def booking_type_def nights_def
      sql_julianday_def sample_times_def sql_minus_def sql_avg_def non_null_def)

lemma open_stay_statements:
  "sqlite3_connect (env_of sample_times open_stay_db) = Inr (conn_of sample_times open_stay_db)"
  "cursor_execute (conn_of sample_times open_stay_db) Q_room_types =
     sql_room_types sample_times open_stay_db"
  "rows_returned (env_of sample_times open_stay_db) Q_forum_posts = Some []"
  "rows_returned (env_of sample_times open_stay_db) Q_meeting_events = Some []"
  "numeric_field ''open_requests'' []" "numeric_field ''events_count'' []"
  by (simp_all add: env_of_def conn_of_def rows_returned_def numeric_field_def column_def)

text \<open>
  C4, as the claim states it, fails on a booking without end date: the room type
  \<^verbatim>\<open>single\<close> has a booking, and the report gives it a row whose \<^verbatim>\<open>avg_nights\<close> is \<^verbatim>\<open>None\<close>,
  no mean of end minus start.
\<close>

theorem open_stay_counterexample:
  "length (bookings_of open_stay_db (Some ''single'')) = 1
   \<and> displays (employee_rooms (env_of sample_times open_stay_db) w0) ''room_types''
       (CRows [room_types_row (Some ''single'', None, 1)])
   \<and> room_types_row (Some ''single'', None, 1) ''avg_nights'' = Some PNone"
proof -
  have b: "length (bookings_of open_stay_db (Some ''single'')) = 1"
    by (simp add: bookings_of_def room_types_from_def booking_type_def open_stay_db_def
        sample_db_def room1_def room2_def sql_eq_def)
  have f: "room_types_row (Some ''single'', None, 1) ''avg_nights'' = Some PNone"
    by (simp add: room_types_row_def py_float_def)
  from room_types_page[OF open_stay_statements, of w0]
  have d: "displays (employee_rooms (env_of sample_times open_stay_db) w0) ''room_types''
       (CRows [room_types_row (Some ''single'', None, 1)])"
    by (simp add: open_stay_rows)
  from b d f show ?thesis by blast
qed

text \<open>
  C4, amended. Whenever \<^verbatim>\<open>/employee/rooms\<close> renders its page (its two other statements
  return rows with numeric counts), it shows the rows of Query 3, and for every room type:
  with at least one join row the report has exactly one row for the type, whose
  \<^verbatim>\<open>avg_nights\<close> is SQLite's \<^verbatim>\<open>AVG\<close>, the mean in double precision, of end minus start in
  days over those join rows of the type whose start and end are both time values, and is
  \<^verbatim>\<open>NULL\<close> when the type has no such row; without a join row the report has no row for the
  type.
\<close>

theorem average_stay_by_room_type:
  assumes "sqlite3_connect env = Inr conn"
    and "cursor_execute conn Q_room_types = sql_room_types fns db"
    and "rows_returned env Q_forum_posts = Some posts"
    and "rows_returned env Q_meeting_events = Some events"
    and "numeric_field ''open_requests'' posts" and "numeric_field ''events_count'' events"
  shows "displays (employee_rooms env w) ''room_types''
           (CRows (map room_types_row (room_types_rows fns db)))
   \<and> (\<forall>g. room_types_row g ''roomType'' = Some (py_text (fst g))
          \<and> room_types_row g ''avg_nights'' = Some (py_float (fst (snd g)))
          \<and> room_types_row g ''num_room_bookings'' = Some (PInt (int (snd (snd g)))))
   \<and> filter (\<lambda>row. fst row = t) (room_types_rows fns db) =
        (if bookings_of db t = [] then []
         else [(t, average_stay fns (bookings_of db t), length (bookings_of db t))])"
  using room_types_page[OF assms, of w] rows_of_type[of t fns db]
  by (simp add: room_types_row_fields)

lemma sample_room_types:
  "room_types_rows sample_times sample_db = [(Some ''single'', Some 3, 2)]"
  by (simp add: room_types_rows_def room_types_groups_def room_types_from_def sample_db_def
      room1_def room2_def sql_eq_def order_by_desc_def booking_type_def nights_def
      sql_julianday_def sample_times_def sql_minus_def sql_avg_def non_null_def exact_mean_def)

lemma sample_room_types_statements:
  "sqlite3_connect sample_env = Inr sample_conn"
  "cursor_execute sample_conn Q_room_types = sql_room_types sample_times sample_db"
  "rows_returned sample_env Q_forum_posts = Some []"
  "rows_returned sample_env Q_meeting_events = Some []"
  "numeric_field ''open_requests'' []" "numeric_field ''events_count'' []"
  by (simp_all add: sample_env_def sample_conn_def env_of_def conn_of_def rows_returned_def
      numeric_field_def column_def)

lemma sample_suite: "bookings_of sample_db (Some ''suite'') = []"
  by (simp add: bookings_of_def room_types_from_def booking_type_def sample_db_def
      room1_def room2_def sql_eq_def)

theorem average_stay_by_room_type_witness:
  "sqlite3_connect sample_env = Inr sample_conn
   \<and> cursor_execute sample_conn Q_room_types = sql_room_types sample_times sample_db
   \<and> rows_returned sample_env Q_forum_posts = Some []
   \<and> rows_returned sample_env Q_meeting_events = Some []
   \<and> displays (employee_rooms sample_env w0) ''room_types''
       (CRows [room_types_row (Some ''single'', Some 3, 2)])
   \<and> average_stay sample_times (bookings_of sample_db (Some ''single'')) = Some 3
   \<and> length (bookings_of sample_db (Some ''single'')) = 2
   \<and> bookings_of sample_db (Some ''suite'') = []"
proof -
  note t = average_stay_by_room_type[OF sample_room_types_statements, of w0 "Some ''single''"]
  from t have d: "displays (employee_rooms sample_env w0) ''room_types''
       (CRows [room_types_row (Some ''single'', Some 3, 2)])"
    by (simp add: sample_room_types)
  from t have "[(Some ''single'', Some 3, 2)] =
        (if bookings_of sample_db (Some ''single'') = [] then []
         else [(Some ''single'', average_stay sample_times (bookings_of sample_db (Some ''single'')),
                length (bookings_of sample_db (Some ''single'')))])"
    by (simp add: sample_room_types)
  then have a: "average_stay sample_times (bookings_of sample_db (Some ''single'')) = Some 3"
    "length (bookings_of sample_db (Some ''single'')) = 2"
    by (auto split: if_splits)
  from sample_room_types_statements(1-4) d a sample_suite show ?thesis by blast
qed

subsection \<open>Monthly revenue\<close>

lemma sql_revenue_syntax_error:
  "sql_revenue fns db =
     Inl (SqliteError (''near '' @ [CHR 0x22] @ ''transaction'' @ [CHR 0x22] @ '': syntax error''))"
  by (simp add: sql_revenue_def sqlite_prepare_def sqlite_reserved_def)

text \<open>
  Were the table name accepted, the groups would still not be months: \<^verbatim>\<open>%%\<close> is a literal
  percent sign, so both group keys are the constant texts \<^verbatim>\<open>%Y\<close> and \<^verbatim>\<open>%m\<close>, and the
  two transactions of January and February fall into one group with \<^verbatim>\<open>yr = mo = 0\<close>.
\<close>

lemma sample_revenue_groups:
  "revenue_groups sample_times sample_db = [(Some 0, Some 0, Some 150, 2)]"
  by code_simp

text \<open>
  C1. The claim: the report returns, for every (year, month) of the transaction table, the
  sum and count of that month, distinct months in distinct rows. The code on a table with a
  transaction in January and one in February 2024: SQLite rejects the statement
  (\<^verbatim>\<open>transaction\<close> is a reserved word), \<^verbatim>\<open>query_db\<close> prints the error and returns \<^verbatim>\<open>[]\<close>, and
  the page shows no month at all; the \<^verbatim>\<open>SELECT\<close> itself would return one row for both months.
\<close>

theorem monthly_revenue_shows_no_month:
  "length (transaction sample_db) = 2
   \<and> map (sql_strftime sample_times ''%Y-%m'' \<circ> t_transactionDate) (transaction sample_db) =
       [Some ''2024-01'', Some ''2024-02'']
   \<and> employee_revenue sample_env w0 =
       (Inr (Rendered ''employee_revenue.html''
          [(''revenue'', CRows []), (''total_revenue'', CVal (PInt 0)),
           (''total_transactions'', CVal (PInt 0)), (''months_tracked'', CVal (PInt 0))]),
        \<lparr>stdout = [''Query error: near '' @ [CHR 0x22] @ ''transaction'' @ [CHR 0x22] @
                     '': syntax error''],
         opened = 1, closed = 1\<rparr>)
   \<and> length (revenue_groups sample_times sample_db) = 1"
proof -
  have c: "sqlite3_connect sample_env = Inr sample_conn"
    by (simp add: sample_env_def env_of_def sample_conn_def)
  have e: "cursor_execute sample_conn Q_revenue =
      Inl (SqliteError (''near '' @ [CHR 0x22] @ ''transaction'' @ [CHR 0x22] @ '': syntax error''))"
    by (simp add: sample_conn_def conn_of_def sql_revenue_syntax_error)
  have days: "map (sql_strftime sample_times ''%Y-%m'' \<circ> t_transactionDate) (transaction sample_db) =
       [Some ''2024-01'', Some ''2024-02'']"
    by code_simp
  have page: "employee_revenue sample_env w0 =
       (Inr (Rendered ''employee_revenue.html''
          [(''revenue'', CRows []), (''total_revenue'', CVal (PInt 0)),
           (''total_transactions'', CVal (PInt 0)), (''months_tracked'', CVal (PInt 0))]),
        \<lparr>stdout = [''Query error: near '' @ [CHR 0x22] @ ''transaction'' @ [CHR 0x22] @
                     '': syntax error''],
         opened = 1, closed = 1\<rparr>)"
    using query_rows_swallows[OF c e, of w0]
    by (simp add: employee_revenue_def stat_defs print_def conn_close_def w0_def)
  have two: "length (transaction sample_db) = 2" by (simp add: sample_db_def)
  have one: "length (revenue_groups sample_times sample_db) = 1"
    by (simp add: sample_revenue_groups)
  from two days page one show ?thesis by blast
qed

end
